theory Spec2Isabelle
  imports Main "HOL-Library.AList"
begin

section \<open>JavaScript strings\<close>

text \<open>
  A JavaScript string is modelled as a \<^typ>\<open>string\<close>; a character of the model is a code
  unit below 256. \<open>isSpace\<close> is the class \<open>\s\<close> of the regular expression in
  \<open>tokenizeCliLine\<close>, which is also the set that \<open>String.prototype.trim\<close> strips, cut down
  to these code units: tab, line feed, vertical tab, form feed, carriage return, space and
  the no-break space.
\<close>

definition isSpace :: "char \<Rightarrow> bool" where
  "isSpace c \<longleftrightarrow>
     c = CHR 0x09 \<or> c = CHR 0x0A \<or> c = CHR 0x0B \<or> c = CHR 0x0C \<or> c = CHR 0x0D \<or>
     c = CHR 0x20 \<or> c = CHR 0xA0"

definition trim :: "string \<Rightarrow> string" where
  "trim s = rev (dropWhile isSpace (rev (dropWhile isSpace s)))"

definition startsWith :: "string \<Rightarrow> string \<Rightarrow> bool" where
  "startsWith s p \<longleftrightarrow> take (length p) s = p"

text \<open>A thrown \<open>Error\<close>, carrying its \<open>message\<close>.\<close>

datatype error = Error string

section \<open>The CLI-line tokenizer\<close>

text \<open>
  \<open>tokenizeCliLine\<close>: the four local variables of the function are the fields of
  the scanner state, \<open>push\<close> is its inner closure, \<open>tokenizeStep\<close> is the body of the
  \<open>for\<close> loop for one character.
\<close>

record tokState =
  tokens :: "string list"
  current :: string
  quote :: "char option"
  escaping :: bool

definition tokInit :: tokState where
  "tokInit = \<lparr>tokens = [], current = [], quote = None, escaping = False\<rparr>"

definition push :: "tokState \<Rightarrow> tokState" where
  "push st = (if length (current st) > 0
              then st\<lparr>tokens := tokens st @ [current st], current := []\<rparr>
              else st)"

definition tokenizeStep :: "tokState \<Rightarrow> char \<Rightarrow> tokState" where
  "tokenizeStep st ch =
     (if escaping st then st\<lparr>current := current st @ [ch], escaping := False\<rparr>
      else if ch = CHR 0x5C then st\<lparr>escaping := True\<rparr>
      else (case quote st of
              Some q \<Rightarrow>
                (if ch = q then st\<lparr>quote := None\<rparr>
                 else st\<lparr>current := current st @ [ch]\<rparr>)
            | None \<Rightarrow>
                (if ch = CHR 0x22 \<or> ch = CHR 0x27 then st\<lparr>quote := Some ch\<rparr>
                 else if isSpace ch then push st
                 else st\<lparr>current := current st @ [ch]\<rparr>)))"

definition tokenizeScan :: "string \<Rightarrow> tokState" where
  "tokenizeScan line = foldl tokenizeStep tokInit line"

definition tokenizeCliLine :: "string \<Rightarrow> error + string list" where
  "tokenizeCliLine line =
     (let st = tokenizeScan line in
      if quote st \<noteq> None then Inl (Error ''Unterminated quote in CLI line'')
      else Inr (tokens (push (if escaping st then st\<lparr>current := current st @ [CHR 0x5C]\<rparr>
                               else st))))"

section \<open>JavaScript values and the built-in functions the code calls\<close>

text \<open>
  A JavaScript value as it reaches the decoder: the result of \<open>JSON.parse\<close>, or a value
  the CLI decoder builds. \<open>'n\<close> is the type of numbers; \<open>JObj\<close> lists an object's own
  properties in insertion order.
\<close>

datatype 'n json =
    JNull
  | JBool bool
  | JNum 'n
  | JStr string
  | JArr "'n json list"
  | JObj "(string \<times> 'n json) list"

text \<open>
  The built-in functions of the JavaScript runtime that the code relies on are parameters
  of the model: \<open>JSON.parse\<close> (\<open>Inl\<close> the thrown \<open>SyntaxError\<close>), \<open>JSON.stringify\<close>,
  \<open>Number\<close> followed by \<open>Number.isFinite\<close> (\<open>None\<close> when the converted value is
  \<open>NaN\<close> or infinite), \<open>String\<close> on a number, and the truthiness of a number.
\<close>

record 'n builtins =
  JSON_parse :: "string \<Rightarrow> error + 'n json"
  JSON_stringify :: "'n json \<Rightarrow> string"
  Number_finite :: "string \<Rightarrow> 'n option"
  String_of_number :: "'n \<Rightarrow> string"
  number_truthy :: "'n \<Rightarrow> bool"

text \<open>JavaScript truthiness of a value; \<open>None\<close> is \<open>undefined\<close>.\<close>

definition truthy :: "'n builtins \<Rightarrow> 'n json option \<Rightarrow> bool" where
  "truthy B v =
     (case v of
        None \<Rightarrow> False
      | Some JNull \<Rightarrow> False
      | Some (JBool b) \<Rightarrow> b
      | Some (JNum n) \<Rightarrow> number_truthy B n
      | Some (JStr s) \<Rightarrow> s \<noteq> []
      | Some (JArr _) \<Rightarrow> True
      | Some (JObj _) \<Rightarrow> True)"

section \<open>Parameter schemas\<close>

text \<open>
  The interfaces \<open>ZodSchema\<close> and \<open>ZodDef\<close> of the source: a schema is its
  \<open>_def\<close> (\<open>typeName\<close>, \<open>values\<close>, \<open>type\<close>, \<open>innerType\<close>, \<open>schema\<close>, and the value
  that the \<open>defaultValue\<close> thunk returns) and its \<open>description\<close>; an absent optional field
  is \<open>None\<close>. The field \<open>checks\<close> is read nowhere and is left out.
\<close>

datatype 'n ZodSchema =
  ZodSchema
    (def_typeName: string)
    (def_values: "string list option")
    (def_type: "'n ZodSchema option")
    (def_innerType: "'n ZodSchema option")
    (def_schema: "'n ZodSchema option")
    (def_defaultValue: "'n json option")
    (description: "string option")

record 'n unwrapped =
  u_schema :: "'n ZodSchema"
  u_required :: bool
  u_description :: "string option"
  u_defaultValue :: "'n json option"

text \<open>
  \<open>unwrapZodSchema\<close>: \<open>unwrapLoop\<close> is its \<open>while\<close> loop, entered with the loop
  variables \<open>schema\<close>, \<open>required\<close>, \<open>description\<close> and \<open>defaultValue\<close>.
\<close>

definition isWrapper :: "string \<Rightarrow> bool" where
  "isWrapper tn \<longleftrightarrow> tn = ''ZodOptional'' \<or> tn = ''ZodDefault'' \<or> tn = ''ZodEffects''"

definition strTruthy :: "string option \<Rightarrow> bool" where
  "strTruthy d \<longleftrightarrow> (case d of None \<Rightarrow> False | Some s \<Rightarrow> s \<noteq> [])"

fun unwrapLoop ::
  "'n ZodSchema \<Rightarrow> bool \<Rightarrow> string option \<Rightarrow> 'n json option \<Rightarrow> 'n unwrapped" where
  "unwrapLoop (ZodSchema tn vals ty inner sch dv descr) required desc dflt =
     (if isWrapper tn then
        (let required1 = (if tn = ''ZodOptional'' then False else required);
             required2 = (if tn = ''ZodDefault'' then False else required1);
             dflt1 = (if tn = ''ZodDefault''
                      then (case dv of Some v \<Rightarrow> Some v | None \<Rightarrow> dflt) else dflt)
         in (case inner of
               Some nx \<Rightarrow>
                 unwrapLoop nx required2
                   (if \<not> strTruthy desc \<and> strTruthy (description nx) then description nx
                    else desc) dflt1
             | None \<Rightarrow>
                 (case sch of
                    Some nx \<Rightarrow>
                      unwrapLoop nx required2
                        (if \<not> strTruthy desc \<and> strTruthy (description nx) then description nx
                         else desc) dflt1
                  | None \<Rightarrow>
                      \<lparr>u_schema = ZodSchema tn vals ty inner sch dv descr,
                       u_required = required2, u_description = desc,
                       u_defaultValue = dflt1\<rparr>)))
      else \<lparr>u_schema = ZodSchema tn vals ty inner sch dv descr, u_required = required,
            u_description = desc, u_defaultValue = dflt\<rparr>)"

definition unwrapZodSchema :: "'n ZodSchema \<Rightarrow> 'n unwrapped" where
  "unwrapZodSchema s = unwrapLoop s True (description s) None"

definition schemaIsPositionalFriendly :: "'n ZodSchema \<Rightarrow> bool" where
  "schemaIsPositionalFriendly s =
     (let tn = def_typeName (u_schema (unwrapZodSchema s))
      in tn = ''ZodString'' \<or> tn = ''ZodNumber'' \<or> tn = ''ZodEnum'')"

section \<open>Decoding CLI tokens into tool parameters\<close>

text \<open>
  \<open>kebabToCamelCase\<close> replaces, from left to right and without overlap, every \<open>-\<close>
  followed by a character of \<open>[a-zA-Z0-9]\<close> by that character in upper case.
\<close>

definition isAlnum :: "char \<Rightarrow> bool" where
  "isAlnum c =
     (let n = (of_char c :: nat)
      in (97 \<le> n \<and> n \<le> 122) \<or> (65 \<le> n \<and> n \<le> 90) \<or> (48 \<le> n \<and> n \<le> 57))"

definition toUpperCase :: "char \<Rightarrow> char" where
  "toUpperCase c =
     (let n = (of_char c :: nat) in if 97 \<le> n \<and> n \<le> 122 then char_of (n - 32) else c)"

text \<open>
  \<open>toLowerCase\<close> on the letters \<open>A\<close> to \<open>Z\<close>. \<open>parseBooleanLike\<close> only compares the
  lowered string with ASCII words, and lowering no other character yields a letter of these
  words.
\<close>

definition toLowerCase :: "string \<Rightarrow> string" where
  "toLowerCase s =
     map (\<lambda>c. let n = (of_char c :: nat) in if 65 \<le> n \<and> n \<le> 90 then char_of (n + 32) else c) s"

fun kebabToCamelCase :: "string \<Rightarrow> string" where
  "kebabToCamelCase (c # d # rest) =
     (if c = CHR ''-'' \<and> isAlnum d then toUpperCase d # kebabToCamelCase rest
      else c # kebabToCamelCase (d # rest))"
| "kebabToCamelCase cs = cs"

definition parseBooleanLike :: "string \<Rightarrow> string \<Rightarrow> error + bool" where
  "parseBooleanLike v label =
     (let normalized = toLowerCase (trim v) in
      if normalized = ''true'' \<or> normalized = ''1'' \<or> normalized = ''yes'' then Inr True
      else if normalized = ''false'' \<or> normalized = ''0'' \<or> normalized = ''no'' then Inr False
      else Inl (Error (''Invalid boolean for '' @ label @ '': '' @ v)))"

text \<open>
  \<open>parseJsonObject\<close> and \<open>parseJsonArray\<close>: the \<open>throw\<close> inside the \<open>try\<close> block is
  caught by the same \<open>catch\<close>, which wraps every message.
\<close>

definition parseJsonObject :: "'n builtins \<Rightarrow> string \<Rightarrow> string \<Rightarrow> error + 'n json" where
  "parseJsonObject B arg label =
     (case JSON_parse B arg of
        Inl (Error m) \<Rightarrow> Inl (Error (''Failed to parse '' @ label @ '' as JSON object: '' @ m))
      | Inr (JObj kvs) \<Rightarrow> Inr (JObj kvs)
      | Inr _ \<Rightarrow>
          Inl (Error (''Failed to parse '' @ label @ '' as JSON object: '' @ label @
                      '' must be a JSON object'')))"

definition parseJsonArray :: "'n builtins \<Rightarrow> string \<Rightarrow> string \<Rightarrow> error + 'n json" where
  "parseJsonArray B arg label =
     (case JSON_parse B arg of
        Inl (Error m) \<Rightarrow> Inl (Error (''Failed to parse '' @ label @ '' as JSON array: '' @ m))
      | Inr (JArr vs) \<Rightarrow> Inr (JArr vs)
      | Inr _ \<Rightarrow>
          Inl (Error (''Failed to parse '' @ label @ '' as JSON array: '' @ label @
                      '' must be a JSON array'')))"

definition coerceNumber :: "'n builtins \<Rightarrow> string \<Rightarrow> string \<Rightarrow> error + 'n json" where
  "coerceNumber B key raw =
     (case Number_finite B raw of
        None \<Rightarrow> Inl (Error (''Invalid number for --'' @ key @ '': '' @ raw))
      | Some n \<Rightarrow> Inr (JNum n))"

definition coerceCliValue ::
  "'n builtins \<Rightarrow> 'n ZodSchema \<Rightarrow> string \<Rightarrow> string \<Rightarrow> error + 'n json" where
  "coerceCliValue B s key raw =
     (let d = u_schema (unwrapZodSchema s); tn = def_typeName d in
      if tn = ''ZodString'' then Inr (JStr raw)
      else if tn = ''ZodNumber'' then coerceNumber B key raw
      else if tn = ''ZodBoolean'' then
        (case parseBooleanLike raw (''--'' @ key) of Inl e \<Rightarrow> Inl e | Inr b \<Rightarrow> Inr (JBool b))
      else if tn = ''ZodEnum'' then Inr (JStr raw)
      else if tn = ''ZodObject'' then parseJsonObject B raw (''--'' @ key)
      else if tn = ''ZodArray'' then
        (let trimmed = trim raw in
         if startsWith trimmed ''['' then parseJsonArray B trimmed (''--'' @ key)
         else (case def_type d of
                 None \<Rightarrow> Inl (Error (''--'' @ key @ '' must be a JSON array''))
               | Some inner \<Rightarrow>
                   (let itn = def_typeName (u_schema (unwrapZodSchema inner)) in
                    if itn = ''ZodString'' then Inr (JStr raw)
                    else if itn = ''ZodNumber'' then coerceNumber B key raw
                    else if itn = ''ZodEnum'' then Inr (JStr raw)
                    else Inl (Error (''--'' @ key @ '' must be a JSON array'')))))
      else Inr (JStr raw))"

text \<open>
  The parameter object under construction, \<open>Record<string, unknown>\<close>, is an association
  list: \<open>params[key] = v\<close> is \<^const>\<open>AList.update\<close>, which overwrites in place or appends,
  and \<open>params[key]\<close> is \<^const>\<open>map_of\<close>.
\<close>

type_synonym 'n params = "(string \<times> 'n json) list"

definition assignCliValue ::
  "'n builtins \<Rightarrow> 'n params \<Rightarrow> string \<Rightarrow> 'n ZodSchema \<Rightarrow> 'n json \<Rightarrow> 'n params" where
  "assignCliValue B ps key s v =
     (if def_typeName (u_schema (unwrapZodSchema s)) \<noteq> ''ZodArray'' then AList.update key v ps
      else (case v of
              JArr _ \<Rightarrow> AList.update key v ps
            | _ \<Rightarrow>
               (let existing = map_of ps key in
                if \<not> truthy B existing then AList.update key (JArr [v]) ps
                else (case existing of
                        Some (JArr xs) \<Rightarrow> AList.update key (JArr (xs @ [v])) ps
                      | Some e \<Rightarrow> AList.update key (JArr [e, v]) ps
                      | None \<Rightarrow> AList.update key (JArr [v]) ps))))"

text \<open>
  \<open>parseToolParamsFromCliTokens\<close>. The loop variables of its \<open>for\<close> loop are the
  fields of \<open>parseState\<close>. \<open>parseStep\<close> is the body of the loop for the token at index
  \<open>i\<close>, given the tokens after it: its three branches are \<open>negatedFlag\<close>
  (\<open>--no-name\<close>), \<open>namedFlag\<close> (\<open>--name\<close>, \<open>--name=value\<close>, \<open>--name value\<close>) and
  \<open>positionalArg\<close>. The Boolean of its result tells whether \<open>tokens[i + 1]\<close> was taken
  as the value of a flag, in which case the body's \<open>i++\<close> skips it. \<open>schemaByKey.get\<close> is
  \<^const>\<open>map_of\<close> on the schema's entries, whose keys are the distinct property names of
  \<open>tool.schema\<close>.
\<close>

record 'n parseState =
  params :: "'n params"
  nextPositionalKeyIndex :: nat
  afterDoubleDash :: bool

definition positionalKeysOf :: "(string \<times> 'n ZodSchema) list \<Rightarrow> string list" where
  "positionalKeysOf schemaEntries =
     map fst (filter (\<lambda>(k, s). schemaIsPositionalFriendly s)
               (filter (\<lambda>(k, s). u_required (unwrapZodSchema s)) schemaEntries))"

definition negatedFlag ::
  "'n builtins \<Rightarrow> (string \<times> 'n ZodSchema) list \<Rightarrow> 'n parseState \<Rightarrow> string \<Rightarrow>
   error + 'n parseState \<times> bool" where
  "negatedFlag B schemaEntries st withoutPrefix =
     (let rawKey = drop 3 withoutPrefix; key = kebabToCamelCase rawKey in
      case map_of schemaEntries key of
        None \<Rightarrow> Inl (Error (''Unknown param: --'' @ rawKey))
      | Some s \<Rightarrow> Inr (st\<lparr>params := assignCliValue B (params st) key s (JBool False)\<rparr>, False))"

definition namedFlag ::
  "'n builtins \<Rightarrow> (string \<times> 'n ZodSchema) list \<Rightarrow> 'n parseState \<Rightarrow> string \<Rightarrow> string list \<Rightarrow>
   error + 'n parseState \<times> bool" where
  "namedFlag B schemaEntries st withoutPrefix rest =
     (let hasEquals = (CHR ''='' \<in> set withoutPrefix);
          rawKey = takeWhile (\<lambda>c. c \<noteq> CHR ''='') withoutPrefix;
          key = kebabToCamelCase rawKey in
      case map_of schemaEntries key of
        None \<Rightarrow> Inl (Error (''Unknown param: --'' @ rawKey))
      | Some s \<Rightarrow>
          if \<not> hasEquals \<and> def_typeName (u_schema (unwrapZodSchema s)) = ''ZodBoolean''
          then Inr (st\<lparr>params := assignCliValue B (params st) key s (JBool True)\<rparr>, False)
          else if hasEquals then
            (case coerceCliValue B s key (drop (length rawKey + 1) withoutPrefix) of
               Inl e \<Rightarrow> Inl e
             | Inr v \<Rightarrow> Inr (st\<lparr>params := assignCliValue B (params st) key s v\<rparr>, False))
          else
            (case rest of
               [] \<Rightarrow> Inl (Error (''Missing value for --'' @ rawKey))
             | rawValue # _ \<Rightarrow>
                 (case coerceCliValue B s key rawValue of
                    Inl e \<Rightarrow> Inl e
                  | Inr v \<Rightarrow> Inr (st\<lparr>params := assignCliValue B (params st) key s v\<rparr>, True))))"

definition positionalArg ::
  "'n builtins \<Rightarrow> (string \<times> 'n ZodSchema) list \<Rightarrow> 'n parseState \<Rightarrow> string \<Rightarrow>
   error + 'n parseState \<times> bool" where
  "positionalArg B schemaEntries st token =
     (if nextPositionalKeyIndex st \<ge> length (positionalKeysOf schemaEntries)
      then Inl (Error (''Unexpected extra arg: '' @ token))
      else
        (let key = positionalKeysOf schemaEntries ! nextPositionalKeyIndex st in
         case map_of schemaEntries key of
           None \<Rightarrow> Inl (Error (''Unexpected positional arg for unknown param: '' @ key))
         | Some s \<Rightarrow>
             (case coerceCliValue B s key token of
                Inl e \<Rightarrow> Inl e
              | Inr v \<Rightarrow>
                  Inr (st\<lparr>params := AList.update key v (params st),
                          nextPositionalKeyIndex := Suc (nextPositionalKeyIndex st)\<rparr>, False))))"

definition parseStep ::
  "'n builtins \<Rightarrow> (string \<times> 'n ZodSchema) list \<Rightarrow> 'n parseState \<Rightarrow> string \<Rightarrow> string list \<Rightarrow>
   error + 'n parseState \<times> bool" where
  "parseStep B schemaEntries st token rest =
     (if token = ''--'' then Inr (st\<lparr>afterDoubleDash := True\<rparr>, False)
      else if \<not> afterDoubleDash st \<and> startsWith token ''--'' then
        (let withoutPrefix = drop 2 token in
         if withoutPrefix = [] then Inr (st, False)
         else if startsWith withoutPrefix ''no-''
         then negatedFlag B schemaEntries st withoutPrefix
         else namedFlag B schemaEntries st withoutPrefix rest)
      else positionalArg B schemaEntries st token)"

fun parseLoop ::
  "'n builtins \<Rightarrow> (string \<times> 'n ZodSchema) list \<Rightarrow> 'n parseState \<Rightarrow> string list \<Rightarrow>
   error + 'n parseState" where
  "parseLoop B schemaEntries st [] = Inr st"
| "parseLoop B schemaEntries st (token # rest) =
     (case parseStep B schemaEntries st token rest of
        Inl e \<Rightarrow> Inl e
      | Inr (st', tookNext) \<Rightarrow>
          parseLoop B schemaEntries st' (if tookNext then drop 1 rest else rest))"

definition parseInit :: "'n parseState" where
  "parseInit = \<lparr>params = [], nextPositionalKeyIndex = 0, afterDoubleDash = False\<rparr>"

definition parseToolParamsFromCliTokens ::
  "'n builtins \<Rightarrow> (string \<times> 'n ZodSchema) list \<Rightarrow> string list \<Rightarrow> error + 'n params" where
  "parseToolParamsFromCliTokens B schemaEntries toks =
     (case parseLoop B schemaEntries parseInit (drop 1 toks) of
        Inl e \<Rightarrow> Inl e
      | Inr st \<Rightarrow> Inr (params st))"

section \<open>The tool registry and the execution guard\<close>

datatype ToolCategory = INPUT | NAVIGATION | EMULATION | PERFORMANCE | NETWORK | DEBUGGING

text \<open>
  A tool descriptor. \<open>zodParse\<close> is \<open>zod.object(tool.schema).parse\<close>, the validation of
  the third-party schema library, which returns the parsed parameters \<open>'p\<close> or throws.
  \<open>handler\<close> is given the parsed parameters and the shared context \<open>'x\<close>; it fills a fresh
  response \<open>'r\<close> or throws, and leaves the context as it has changed it either way.
\<close>

record ('n, 'p, 'r, 'x) tool =
  name :: string
  category :: ToolCategory
  conditions :: "string list option"
  schema :: "(string \<times> 'n ZodSchema) list"
  zodParse :: "'n params \<Rightarrow> error + 'p"
  handler :: "'p \<Rightarrow> 'x \<Rightarrow> (error + 'r) \<times> 'x"

text \<open>The formats \<open>'json'\<close> and \<open>'text'\<close>.\<close>

datatype CliOutputFormat = FormatJson | FormatText

text \<open>The options of the command line that the session reads.\<close>

record cliArgs =
  categoryEmulation :: "bool option"
  categoryPerformance :: "bool option"
  categoryNetwork :: "bool option"
  experimentalVision :: bool
  format :: "CliOutputFormat option"

definition toolIsEnabled :: "cliArgs \<Rightarrow> ('n, 'p, 'r, 'x) tool \<Rightarrow> bool" where
  "toolIsEnabled args t =
     (if category t = EMULATION \<and> categoryEmulation args = Some False then False
      else if category t = PERFORMANCE \<and> categoryPerformance args = Some False then False
      else if category t = NETWORK \<and> categoryNetwork args = Some False then False
      else if (case conditions t of None \<Rightarrow> False | Some cs \<Rightarrow> ''computerVision'' \<in> set cs)
              \<and> \<not> experimentalVision args then False
      else True)"

text \<open>
  Modelled from the spec: the class \<open>Mutex\<close> (\<open>Mutex.js\<close> is not among the sources). The
  ExecutionGuard is a binary mutual-exclusion token: \<open>acquire\<close> grants it only when it is
  free, and a caller that finds it held waits; in the model the wait is the result
  \<open>None\<close>, since the session loop has nothing else running that could release it.
  \<open>dispose\<close> on the guard frees the token.
\<close>

datatype Mutex = Mutex (locked: bool)

definition Mutex_acquire :: "Mutex \<Rightarrow> Mutex option" where
  "Mutex_acquire m = (if locked m then None else Some (Mutex True))"

definition Guard_dispose :: "Mutex \<Rightarrow> Mutex" where
  "Guard_dispose m = Mutex False"

section \<open>Session output\<close>

datatype contentItem = TextItem string | ImageItem string string

text \<open>
  What the session writes. \<open>writeJsonLine\<close> writes \<open>JSON.stringify\<close> of an object and a
  line feed to the standard output; the model keeps the object: \<open>{tool, content}\<close>,
  \<open>{tool, isError: true, error}\<close> or \<open>{isError: true, error}\<close>. The text format writes
  strings to the standard output or the standard error.
\<close>

datatype jsonLine =
    ToolContent string "contentItem list"
  | ToolError string string
  | PlainError string

datatype emitted = StdoutJson jsonLine | StdoutText string | StderrText string

fun showNat :: "nat \<Rightarrow> string" where
  "showNat n =
     (if n < 10 then [char_of (48 + n)] else showNat (n div 10) @ [char_of (48 + n mod 10)])"

declare showNat.simps [simp del]

definition writeItem :: "contentItem \<Rightarrow> emitted" where
  "writeItem item =
     (case item of
        TextItem t \<Rightarrow> StdoutText (t @ [CHR 0x0A])
      | ImageItem mimeType d \<Rightarrow>
          StdoutText (''[image '' @ mimeType @ '' '' @ showNat (length d) @ ''b base64]'' @
                      [CHR 0x0A]))"

definition writeToolSuccess :: "CliOutputFormat \<Rightarrow> string \<Rightarrow> contentItem list \<Rightarrow> emitted list" where
  "writeToolSuccess fmt toolName content =
     (if fmt = FormatJson then [StdoutJson (ToolContent toolName content)]
      else map writeItem content)"

definition writeToolError :: "CliOutputFormat \<Rightarrow> string \<Rightarrow> string \<Rightarrow> emitted list" where
  "writeToolError fmt toolName errorText =
     (if fmt = FormatJson then [StdoutJson (ToolError toolName errorText)]
      else [StderrText (toolName @ '': '' @ errorText @ [CHR 0x0A])])"

section \<open>The session command loop\<close>

text \<open>
  What the session command closes over: the built-ins, the registry \<open>tools\<close>, the
  options \<open>args\<close>, and \<open>McpResponse.handle\<close>, which turns the response a handler has
  filled into the content to print, with the tool's name and the context, or throws.
\<close>

record ('n, 'p, 'r, 'x) env =
  builtins :: "'n builtins"
  tools :: "('n, 'p, 'r, 'x) tool list"
  args :: cliArgs
  responseHandle :: "string \<Rightarrow> 'r \<Rightarrow> 'x \<Rightarrow> (error + contentItem list) \<times> 'x"

text \<open>
  What a command changes: the guard \<open>toolMutex\<close>, the shared context (the \<open>McpContext\<close>), and what has
  been written so far.
\<close>

record 'x session =
  toolMutex :: Mutex
  mcpContext :: 'x
  written :: "emitted list"

definition sessionFormat :: "('n, 'p, 'r, 'x) env \<Rightarrow> CliOutputFormat" where
  "sessionFormat E = (case format (args E) of None \<Rightarrow> FormatJson | Some f \<Rightarrow> f)"

text \<open>
  How the decoding of one line ends: \<open>Next out\<close> is \<open>continue\<close> after writing \<open>out\<close>,
  \<open>Stop\<close> is \<open>break\<close>, and \<open>Command toolName rawParams\<close> goes on to the execution.
\<close>

datatype 'n decoded = Next "emitted list" | Stop | Command string "'n params"

text \<open>The branch of the loop body for a line that starts with \<open>{\<close>.\<close>

definition decodeJsonLine :: "('n, 'p, 'r, 'x) env \<Rightarrow> string \<Rightarrow> 'n decoded" where
  \<open>decodeJsonLine E trimmed =
     (case JSON_parse (builtins E) trimmed of
        Inl (Error m) \<Rightarrow> Next (writeToolError (sessionFormat E) ''session'' m)
      | Inr (JObj msg) \<Rightarrow>
          (let maybeTool = map_of msg ''tool'' in
           if maybeTool = Some (JStr ''exit'') \<or> maybeTool = Some (JStr ''quit'') then Stop
           else (case maybeTool of
                   Some (JStr t) \<Rightarrow>
                     if trim t = [] then
                       Next (writeToolError (sessionFormat E) ''session''
                               ''Missing required field: "tool" (string)'')
                     else Command (trim t)
                            (case map_of msg ''params'' of Some (JObj ps) \<Rightarrow> ps | _ \<Rightarrow> [])
                 | _ \<Rightarrow>
                     Next (writeToolError (sessionFormat E) ''session''
                             ''Missing required field: "tool" (string)'')))
      | Inr _ \<Rightarrow> Next (writeToolError (sessionFormat E) ''session'' ''Expected an object message''))\<close>

text \<open>The branch for every other line, which is tokenized as a CLI line.\<close>

definition replaceDashes :: "string \<Rightarrow> string" where
  "replaceDashes s = map (\<lambda>c. if c = CHR ''-'' then CHR ''_'' else c) s"

definition findTool ::
  "('n, 'p, 'r, 'x) tool list \<Rightarrow> string \<Rightarrow> ('n, 'p, 'r, 'x) tool option" where
  "findTool ts toolName = find (\<lambda>t. name t = toolName) ts"

text \<open>The tokens without an optional leading program name.\<close>

definition commandTokensOf :: "string list \<Rightarrow> string list" where
  "commandTokensOf toks =
     (if hd toks = ''chrome_devtools'' \<or> hd toks = ''chrome-devtools-cli'' \<or>
         hd toks = ''chrome-devtools-mcp''
      then drop 1 toks else toks)"

definition decodeCliLine :: "('n, 'p, 'r, 'x) env \<Rightarrow> string \<Rightarrow> 'n decoded" where
  "decodeCliLine E trimmed =
     (case tokenizeCliLine trimmed of
        Inl (Error m) \<Rightarrow> Next (writeToolError (sessionFormat E) ''session'' m)
      | Inr toks \<Rightarrow>
          (if length toks = 0 then Next []
           else
             (let commandTokens = commandTokensOf toks
              in if length commandTokens = 0 then Next []
                 else
                   (let first = hd commandTokens in
                    if first = ''exit'' \<or> first = ''quit'' then Stop
                    else
                      (let toolName = replaceDashes first in
                       case findTool (tools E) toolName of
                         None \<Rightarrow>
                           Next (writeToolError (sessionFormat E) ''session''
                                   (''Unknown tool: '' @ toolName))
                       | Some t \<Rightarrow>
                           (case parseToolParamsFromCliTokens (builtins E) (schema t)
                                   commandTokens of
                              Inl (Error m) \<Rightarrow>
                                Next (writeToolError (sessionFormat E) toolName m)
                            | Inr rawParams \<Rightarrow> Command toolName rawParams))))))"

text \<open>
  The \<open>try\<close> block of the execution and its \<open>catch\<close>, entered with the guard held:
  validation, the handler, \<open>response.handle\<close>, and the success or the error written in
  the format \<open>fmt\<close> of the session.
\<close>

definition emit :: "emitted list \<Rightarrow> 'x session \<Rightarrow> 'x session" where
  "emit out st = st\<lparr>written := written st @ out\<rparr>"

definition invokeBody ::
  "('n, 'p, 'r, 'x) env \<Rightarrow> CliOutputFormat \<Rightarrow> ('n, 'p, 'r, 'x) tool \<Rightarrow> string \<Rightarrow> 'n params \<Rightarrow>
   'x session \<Rightarrow> 'x session" where
  "invokeBody E fmt t toolName rawParams st =
     (case zodParse t rawParams of
        Inl (Error m) \<Rightarrow> emit (writeToolError fmt toolName m) st
      | Inr parsedParams \<Rightarrow>
          (case handler t parsedParams (mcpContext st) of
             (Inl (Error m), x) \<Rightarrow> emit (writeToolError fmt toolName m) (st\<lparr>mcpContext := x\<rparr>)
           | (Inr response, x) \<Rightarrow>
               (case responseHandle E (name t) response x of
                  (Inl (Error m), x') \<Rightarrow>
                    emit (writeToolError fmt toolName m) (st\<lparr>mcpContext := x'\<rparr>)
                | (Inr content, x') \<Rightarrow>
                    emit (writeToolSuccess fmt (name t) content) (st\<lparr>mcpContext := x'\<rparr>))))"

text \<open>
  The execution of a decoded command: \<open>await toolMutex.acquire()\<close>, the \<open>try\<close> block, and
  \<open>guard.dispose()\<close> in the \<open>finally\<close> block. \<open>None\<close> is a wait for the guard that never ends.
\<close>

definition invokeTool ::
  "('n, 'p, 'r, 'x) env \<Rightarrow> CliOutputFormat \<Rightarrow> ('n, 'p, 'r, 'x) tool \<Rightarrow> string \<Rightarrow> 'n params \<Rightarrow>
   'x session \<Rightarrow> 'x session option" where
  "invokeTool E fmt t toolName rawParams st =
     (case Mutex_acquire (toolMutex st) of
        None \<Rightarrow> None
      | Some held \<Rightarrow>
          (let st' = invokeBody E fmt t toolName rawParams (st\<lparr>toolMutex := held\<rparr>)
           in Some (st'\<lparr>toolMutex := Guard_dispose (toolMutex st')\<rparr>)))"

datatype control = Continue | Break

text \<open>
  The part of the loop body after the decoding: the look-up of the tool in the registry, the
  gate \<open>toolIsEnabled\<close>, and the execution.
\<close>

definition executeCommand ::
  "('n, 'p, 'r, 'x) env \<Rightarrow> CliOutputFormat \<Rightarrow> string \<Rightarrow> 'n params \<Rightarrow> 'x session \<Rightarrow>
   'x session option" where
  "executeCommand E fmt toolName rawParams st =
     (case findTool (tools E) toolName of
        None \<Rightarrow> Some (emit (writeToolError fmt toolName (''Unknown tool: '' @ toolName)) st)
      | Some t \<Rightarrow>
          if \<not> toolIsEnabled (args E) t then
            Some (emit (writeToolError fmt toolName
                          (''Tool '' @ toolName @
                           '' is disabled by category or experimental flags.'')) st)
          else invokeTool E fmt t toolName rawParams st)"

text \<open>How the loop body goes on after the decoding of a line.\<close>

definition afterDecoding ::
  "('n, 'p, 'r, 'x) env \<Rightarrow> CliOutputFormat \<Rightarrow> 'x session \<Rightarrow> 'n decoded \<Rightarrow>
   (control \<times> 'x session) option" where
  "afterDecoding E fmt st d =
     (case d of
        Next out \<Rightarrow> Some (Continue, emit out st)
      | Stop \<Rightarrow> Some (Break, st)
      | Command toolName rawParams \<Rightarrow>
          (case executeCommand E fmt toolName rawParams st of
             None \<Rightarrow> None
           | Some st' \<Rightarrow> Some (Continue, st')))"

text \<open>
  The body of the \<open>for await\<close> loop of the session command that accepts JSON lines and
  CLI lines, for one line of the standard input.
\<close>

definition sessionLine ::
  "('n, 'p, 'r, 'x) env \<Rightarrow> 'x session \<Rightarrow> string \<Rightarrow> (control \<times> 'x session) option" where
  "sessionLine E st line =
     (let trimmed = trim line in
      if trimmed = [] \<or> startsWith trimmed ''#'' then Some (Continue, st)
      else afterDecoding E (sessionFormat E) st
             (if startsWith trimmed ''{'' then decodeJsonLine E trimmed
              else decodeCliLine E trimmed))"

text \<open>The loop itself, over the lines that the standard input delivers.\<close>

fun sessionLoop ::
  "('n, 'p, 'r, 'x) env \<Rightarrow> 'x session \<Rightarrow> string list \<Rightarrow> 'x session option" where
  "sessionLoop E st [] = Some st"
| "sessionLoop E st (line # rest) =
     (case sessionLine E st line of
        None \<Rightarrow> None
      | Some (Break, st') \<Rightarrow> Some st'
      | Some (Continue, st') \<Rightarrow> sessionLoop E st' rest)"

text \<open>
  The session command of \<open>src/cliApp.ts\<close>, which accepts JSON lines only and always writes
  JSON lines: a decoding error is written as \<open>{isError: true, error}\<close>. Its \<open>try\<close> block
  reads \<open>params\<close> from the message after the guard is acquired; reading it has no effect, so
  the model reads it while decoding.
\<close>

definition decodeJsonOnlyLine :: "('n, 'p, 'r, 'x) env \<Rightarrow> string \<Rightarrow> 'n decoded" where
  \<open>decodeJsonOnlyLine E trimmed =
     (case JSON_parse (builtins E) trimmed of
        Inl (Error m) \<Rightarrow> Next [StdoutJson (PlainError m)]
      | Inr (JObj msg) \<Rightarrow>
          (let maybeTool = map_of msg ''tool'' in
           if maybeTool = Some (JStr ''exit'') \<or> maybeTool = Some (JStr ''quit'') then Stop
           else (case maybeTool of
                   Some (JStr t) \<Rightarrow>
                     if trim t = [] then
                       Next [StdoutJson (PlainError ''Missing required field: "tool" (string)'')]
                     else Command (trim t)
                            (case map_of msg ''params'' of Some (JObj ps) \<Rightarrow> ps | _ \<Rightarrow> [])
                 | _ \<Rightarrow>
                     Next [StdoutJson (PlainError ''Missing required field: "tool" (string)'')]))
      | Inr _ \<Rightarrow> Next [StdoutJson (PlainError ''Expected an object message'')])\<close>

definition sessionLineJson ::
  "('n, 'p, 'r, 'x) env \<Rightarrow> 'x session \<Rightarrow> string \<Rightarrow> (control \<times> 'x session) option" where
  "sessionLineJson E st line =
     (let trimmed = trim line in
      if trimmed = [] then Some (Continue, st)
      else afterDecoding E FormatJson st (decodeJsonOnlyLine E trimmed))"

fun sessionLoopJson ::
  "('n, 'p, 'r, 'x) env \<Rightarrow> 'x session \<Rightarrow> string list \<Rightarrow> 'x session option" where
  "sessionLoopJson E st [] = Some st"
| "sessionLoopJson E st (line # rest) =
     (case sessionLineJson E st line of
        None \<Rightarrow> None
      | Some (Break, st') \<Rightarrow> Some st'
      | Some (Continue, st') \<Rightarrow> sessionLoopJson E st' rest)"

section \<open>Accessibility snapshots and their differences\<close>

text \<open>
  The types \<open>NormalizedAXNode\<close> and \<open>NodeChange\<close> that the handler of
  \<open>take_change_snapshot\<close> reads: a node has a \<open>role\<close> and a \<open>name\<close>, either of which
  may be absent, a \<open>path\<close> and attributes; a change of a node lists, for each property
  that differs, the value before and after (\<open>None\<close> is \<open>undefined\<close>).
\<close>

record 'n NormalizedAXNode =
  ax_role :: "string option"
  ax_name :: "string option"
  ax_path :: string
  ax_attributes :: "(string \<times> 'n json) list"

record 'n fieldChange =
  property :: string
  before :: "'n json option"
  after :: "'n json option"

record 'n NodeChange =
  ch_role :: "string option"
  ch_name :: "string option"
  ch_path :: string
  changes :: "'n fieldChange list"

record 'n SnapshotDiff =
  added :: "'n NormalizedAXNode list"
  removed :: "'n NormalizedAXNode list"
  changed :: "'n NodeChange list"

text \<open>
  Modelled from the spec: \<open>diffSnapshots\<close> and \<open>hasSnapshotChanges\<close> of
  \<open>utils/accessibilityDiff.js\<close>, which is not among the sources. Both lists are indexed by
  path (a later node of a list replaces an earlier one with the same path). A path only in
  the new index is an addition, a path only in the old index is a removal, and a path in
  both is compared field by field, over the role, the name and each attribute key of either
  node: a field whose value differs, also by being present on one side only, gives one entry,
  and a node with at least one entry is a changed node, reported with the role and name of
  the new node. \<open>hasSnapshotChanges\<close> holds when one of the three lists is not empty.
\<close>

definition indexByPath :: "'n NormalizedAXNode list \<Rightarrow> string \<Rightarrow> 'n NormalizedAXNode option" where
  "indexByPath nodes = map_of (rev (map (\<lambda>n. (ax_path n, n)) nodes))"

definition pathsOf :: "'n NormalizedAXNode list \<Rightarrow> string list" where
  "pathsOf nodes = remdups (map ax_path nodes)"

definition fieldDelta :: "string \<Rightarrow> 'n json option \<Rightarrow> 'n json option \<Rightarrow> 'n fieldChange list" where
  "fieldDelta prop b a = (if b = a then [] else [\<lparr>property = prop, before = b, after = a\<rparr>])"

definition compareNodes ::
  "'n NormalizedAXNode \<Rightarrow> 'n NormalizedAXNode \<Rightarrow> 'n fieldChange list" where
  "compareNodes old new =
     fieldDelta ''role'' (map_option JStr (ax_role old)) (map_option JStr (ax_role new)) @
     fieldDelta ''name'' (map_option JStr (ax_name old)) (map_option JStr (ax_name new)) @
     concat (map (\<lambda>k. fieldDelta k (map_of (ax_attributes old) k) (map_of (ax_attributes new) k))
               (remdups (map fst (ax_attributes old) @ map fst (ax_attributes new))))"

definition changedAt ::
  "'n NormalizedAXNode list \<Rightarrow> 'n NormalizedAXNode list \<Rightarrow> string \<Rightarrow> 'n NodeChange option" where
  "changedAt old new p =
     (case (indexByPath old p, indexByPath new p) of
        (Some a, Some b) \<Rightarrow>
          (if compareNodes a b = [] then None
           else Some \<lparr>ch_role = ax_role b, ch_name = ax_name b, ch_path = p,
                      changes = compareNodes a b\<rparr>)
      | _ \<Rightarrow> None)"

definition diffSnapshots ::
  "'n NormalizedAXNode list \<Rightarrow> 'n NormalizedAXNode list \<Rightarrow> 'n SnapshotDiff" where
  "diffSnapshots old new =
     \<lparr>added = List.map_filter
                (\<lambda>p. if indexByPath old p = None then indexByPath new p else None) (pathsOf new),
      removed = List.map_filter
                  (\<lambda>p. if indexByPath new p = None then indexByPath old p else None) (pathsOf old),
      changed = List.map_filter (changedAt old new) (pathsOf new)\<rparr>"

definition hasSnapshotChanges :: "'n SnapshotDiff \<Rightarrow> bool" where
  "hasSnapshotChanges d \<longleftrightarrow> added d \<noteq> [] \<or> removed d \<noteq> [] \<or> changed d \<noteq> []"

section \<open>The tool \<open>take_change_snapshot\<close>\<close>

text \<open>
  The part of the \<open>McpContext\<close> that the handler uses. \<open>textSnapshot\<close> is what
  \<open>getTextSnapshot\<close> returns once \<open>createTextSnapshot\<close> has returned: the capture of
  the page as it is now, of a type \<open>'s\<close>, or \<open>null\<close>. \<open>accessibilityBaselines\<close> is the
  table of the baselines.
\<close>

record ('s, 'n) axContext =
  textSnapshot :: "'s option"
  accessibilityBaselines :: "string \<Rightarrow> 'n NormalizedAXNode list option"

text \<open>
  Modelled from the spec: the operations of the Baseline Store,
  \<open>getAccessibilityBaseline\<close> and \<open>setAccessibilityBaseline\<close> of the context
  (\<open>McpContext.js\<close> is not among the sources). The store is a mapping from keys to
  normalized snapshots; \<open>get(key)\<close> returns the snapshot or nothing, and
  \<open>set(key, snapshot)\<close> replaces what the key had.
\<close>

definition getAccessibilityBaseline ::
  "('s, 'n) axContext \<Rightarrow> string \<Rightarrow> 'n NormalizedAXNode list option" where
  "getAccessibilityBaseline c key = accessibilityBaselines c key"

definition setAccessibilityBaseline ::
  "('s, 'n) axContext \<Rightarrow> string \<Rightarrow> 'n NormalizedAXNode list \<Rightarrow> ('s, 'n) axContext" where
  "setAccessibilityBaseline c key snap =
     c\<lparr>accessibilityBaselines := (accessibilityBaselines c)(key \<mapsto> snap)\<rparr>"

text \<open>The parameters of the tool, after validation: each of them is optional.\<close>

record changeSnapshotParams =
  baselineKey :: "string option"
  replaceBaseline :: "bool option"
  compareTo :: "string option"

text \<open>The three constants that the handler computes first.\<close>

definition baselineKeyOf :: "changeSnapshotParams \<Rightarrow> string" where
  "baselineKeyOf p =
     (case baselineKey p of
        None \<Rightarrow> ''default''
      | Some k \<Rightarrow> if trim k = [] then ''default'' else trim k)"

definition compareKeyOf :: "changeSnapshotParams \<Rightarrow> string" where
  "compareKeyOf p =
     (case compareTo p of
        None \<Rightarrow> baselineKeyOf p
      | Some k \<Rightarrow> if trim k = [] then baselineKeyOf p else trim k)"

definition replaceBaselineOf :: "changeSnapshotParams \<Rightarrow> bool" where
  "replaceBaselineOf p = (case replaceBaseline p of None \<Rightarrow> True | Some b \<Rightarrow> b)"

text \<open>
  \<open>formatNodeSummary\<close> and \<open>formatChangeSummary\<close>: an absent or empty role or name is
  falsy.
\<close>

definition roleLabel :: "string option \<Rightarrow> string" where
  "roleLabel r =
     (case r of
        None \<Rightarrow> ''[unknown role]''
      | Some s \<Rightarrow> if s = [] then ''[unknown role]'' else ''['' @ s @ '']'')"

definition nameLabel :: "string option \<Rightarrow> string" where
  \<open>nameLabel n =
     (case n of
        None \<Rightarrow> []
      | Some s \<Rightarrow> if s = [] then [] else '' "'' @ s @ ''"'')\<close>

definition formatNodeSummary :: "'n NormalizedAXNode \<Rightarrow> string" where
  "formatNodeSummary node =
     roleLabel (ax_role node) @ nameLabel (ax_name node) @ '' at path '' @ ax_path node"

definition formatChangeSummary :: "'n NodeChange \<Rightarrow> string" where
  "formatChangeSummary change =
     roleLabel (ch_role change) @ nameLabel (ch_name change) @ '' at path '' @ ch_path change"

definition formatDiffValue :: "'n builtins \<Rightarrow> 'n json option \<Rightarrow> string" where
  "formatDiffValue B v =
     (case v of
        None \<Rightarrow> ''undefined''
      | Some JNull \<Rightarrow> ''null''
      | Some (JStr s) \<Rightarrow> JSON_stringify B (JStr s)
      | Some (JNum n) \<Rightarrow> String_of_number B n
      | Some (JBool b) \<Rightarrow> (if b then ''true'' else ''false'')
      | Some w \<Rightarrow> JSON_stringify B w)"

text \<open>The lines of the report when the comparison has found changes.\<close>

definition changeLines :: "'n builtins \<Rightarrow> 'n NodeChange \<Rightarrow> string list" where
  "changeLines B change =
     (''- '' @ formatChangeSummary change) #
     map (\<lambda>detail. ''  - '' @ property detail @ '': '' @ formatDiffValue B (before detail) @
                     '' -> '' @ formatDiffValue B (after detail))
       (changes change)"

definition diffReport :: "'n builtins \<Rightarrow> string \<Rightarrow> 'n SnapshotDiff \<Rightarrow> string list" where
  \<open>diffReport B compareKey d =
     [''Accessibility changes compared to baseline "'' @ compareKey @ ''":'',
      ''Added nodes: '' @ showNat (length (added d)) @ '', Removed nodes: '' @
        showNat (length (removed d)) @ '', Changed nodes: '' @ showNat (length (changed d))] @
     (if length (added d) \<noteq> 0
      then ''## Added'' # map (\<lambda>node. ''- '' @ formatNodeSummary node) (added d) else []) @
     (if length (removed d) \<noteq> 0
      then ''## Removed'' # map (\<lambda>node. ''- '' @ formatNodeSummary node) (removed d) else []) @
     (if length (changed d) \<noteq> 0
      then ''## Changed'' # concat (map (changeLines B) (changed d)) else [])\<close>

text \<open>
  The handler of \<open>take_change_snapshot\<close>, for a call in which \<open>createTextSnapshot\<close>
  returns. \<open>normalizeSnapshot\<close> (of \<open>utils/accessibilityDiff.js\<close>) is a parameter; the
  response is the list of the lines appended to it. The handler itself throws nowhere.
\<close>

definition takeChangeSnapshot ::
  "'n builtins \<Rightarrow> ('s \<Rightarrow> 'n NormalizedAXNode list) \<Rightarrow> changeSnapshotParams \<Rightarrow>
   ('s, 'n) axContext \<Rightarrow> (error + string list) \<times> ('s, 'n) axContext" where
  \<open>takeChangeSnapshot B normalizeSnapshot p c =
     (case textSnapshot c of
        None \<Rightarrow> (Inr [''Unable to capture accessibility snapshot for the current page.''], c)
      | Some snapshot \<Rightarrow>
          (let normalizedSnapshot = normalizeSnapshot snapshot in
           case getAccessibilityBaseline c (compareKeyOf p) of
             None \<Rightarrow>
               (Inr [if compareKeyOf p = baselineKeyOf p
                     then ''No baseline found for key "'' @ compareKeyOf p @
                          ''". Created a baseline with the current snapshot.''
                     else ''No baseline found for key "'' @ compareKeyOf p @
                          ''". Created a baseline under "'' @ baselineKeyOf p @
                          ''" with the current snapshot.''],
                setAccessibilityBaseline c (baselineKeyOf p) normalizedSnapshot)
           | Some baseline \<Rightarrow>
               (let d = diffSnapshots baseline normalizedSnapshot in
                (Inr (if \<not> hasSnapshotChanges d
                      then [''No accessibility changes compared to baseline "'' @
                            compareKeyOf p @ ''".'']
                      else diffReport B (compareKeyOf p) d),
                 if replaceBaselineOf p
                 then setAccessibilityBaseline c (baselineKeyOf p) normalizedSnapshot
                 else c))))\<close>

section \<open>Predicates used in the statements\<close>

text \<open>
  The value that a token of the form \<open>--name=value\<close> carries after its first \<open>=\<close>,
  and the property of a parameter object that no parameter is the empty string.
\<close>

definition valueAfterEquals :: "string \<Rightarrow> string option" where
  "valueAfterEquals token =
     (let w = drop 2 token in
      if startsWith token ''--'' \<and> CHR ''='' \<in> set w
      then Some (drop (length (takeWhile (\<lambda>c. c \<noteq> CHR ''='') w) + 1) w) else None)"

definition noEmptyValue :: "'n params \<Rightarrow> bool" where
  "noEmptyValue ps \<longleftrightarrow> (\<forall>k. map_of ps k \<noteq> Some (JStr []))"



section \<open>Concrete schemas and tools\<close>

text \<open>
  The schemas that the schema library builds for \<open>zod.string()\<close>, \<open>zod.boolean()\<close>,
  \<open>s.optional()\<close>, \<open>s.default(v)\<close> and \<open>s.describe(text)\<close>.
\<close>

definition zString :: "'n ZodSchema" where
  "zString = ZodSchema ''ZodString'' None None None None None None"

definition zBoolean :: "'n ZodSchema" where
  "zBoolean = ZodSchema ''ZodBoolean'' None None None None None None"

definition zOptional :: "'n ZodSchema \<Rightarrow> 'n ZodSchema" where
  "zOptional s = ZodSchema ''ZodOptional'' None None (Some s) None None (description s)"


definition zDescribe :: "string \<Rightarrow> 'n ZodSchema \<Rightarrow> 'n ZodSchema" where
  "zDescribe d s =
     ZodSchema (def_typeName s) (def_values s) (def_type s) (def_innerType s) (def_schema s)
       (def_defaultValue s) (Some d)"

text \<open>The schema of the tool \<open>take_snapshot\<close>.\<close>

definition takeSnapshotSchema :: "(string \<times> int ZodSchema) list" where
  "takeSnapshotSchema =
     [(''verbose'',
       zDescribe (''Whether to include all possible information available in the full a11y '' @
                  ''tree. Default is false.'')
         (zOptional zBoolean)),
      (''filePath'',
       zDescribe (''The absolute path, or a path relative to the current working directory, '' @
                  ''to save the snapshot to instead of attaching it to the response.'')
         (zOptional zString))]"

text \<open>
  Built-ins for the examples, with integers as numbers: this \<open>JSON.parse\<close> knows the three
  lines that the examples send and rejects every other text.
\<close>

definition sampleParse :: "string \<Rightarrow> error + int json" where
  \<open>sampleParse s =
     (if s = ''{}'' then Inr (JObj [])
      else if s = ''{"tool":"no_such_tool"}'' then Inr (JObj [(''tool'', JStr ''no_such_tool'')])
      else if s = ''{"tool":"take_change_snapshot"}''
      then Inr (JObj [(''tool'', JStr ''take_change_snapshot'')])
      else Inl (Error ''Unexpected end of JSON input''))\<close>

definition sampleBuiltins :: "int builtins" where
  "sampleBuiltins =
     \<lparr>JSON_parse = sampleParse,
      JSON_stringify = (\<lambda>v. ''null''),
      Number_finite = (\<lambda>s. None),
      String_of_number = (\<lambda>n. showNat (nat n)),
      number_truthy = (\<lambda>n. n \<noteq> 0)\<rparr>"

text \<open>
  The schema of the tool \<open>take_change_snapshot\<close>, and its validation as the schema
  library performs it: each parameter may be absent; a key is a string, which is trimmed
  and must not be empty then; \<open>replaceBaseline\<close> is a Boolean. The messages stand for the
  ones that the library composes.
\<close>

definition takeChangeSnapshotSchema :: "(string \<times> int ZodSchema) list" where
  \<open>takeChangeSnapshotSchema =
     [(''baselineKey'',
       zDescribe ''Identifier used to store the baseline snapshot. Defaults to "default".''
         (zOptional zString)),
      (''replaceBaseline'',
       zDescribe (''Whether to replace the stored baseline with the latest snapshot. '' @
                  ''Defaults to true.'')
         (zOptional zBoolean)),
      (''compareTo'',
       zDescribe (''Compare against a different baseline key. When omitted, compares '' @
                  ''against the same key as baselineKey.'')
         (zOptional zString))]\<close>

definition optionalKey :: "'n json option \<Rightarrow> error + string option" where
  "optionalKey v =
     (case v of
        None \<Rightarrow> Inr None
      | Some (JStr s) \<Rightarrow>
          if trim s = [] then Inl (Error ''String must contain at least 1 character(s)'')
          else Inr (Some (trim s))
      | Some _ \<Rightarrow> Inl (Error ''Expected string''))"

definition optionalBoolean :: "'n json option \<Rightarrow> error + bool option" where
  "optionalBoolean v =
     (case v of
        None \<Rightarrow> Inr None
      | Some (JBool b) \<Rightarrow> Inr (Some b)
      | Some _ \<Rightarrow> Inl (Error ''Expected boolean''))"

definition parseChangeSnapshotParams :: "'n params \<Rightarrow> error + changeSnapshotParams" where
  "parseChangeSnapshotParams raw =
     (case optionalKey (map_of raw ''baselineKey'') of
        Inl e \<Rightarrow> Inl e
      | Inr bk \<Rightarrow>
          (case optionalBoolean (map_of raw ''replaceBaseline'') of
             Inl e \<Rightarrow> Inl e
           | Inr rb \<Rightarrow>
               (case optionalKey (map_of raw ''compareTo'') of
                  Inl e \<Rightarrow> Inl e
                | Inr ct \<Rightarrow> Inr \<lparr>baselineKey = bk, replaceBaseline = rb, compareTo = ct\<rparr>)))"

text \<open>
  Two pages for the examples, \<open><main><div>Hello</div></main>\<close> before and after a second
  \<open>div\<close> is added, as normalized snapshots; the capture of a page is its normalized
  snapshot here, so that \<open>normalizeSnapshot\<close> is the identity.
\<close>

definition axNode :: "string \<Rightarrow> string \<Rightarrow> string \<Rightarrow> int NormalizedAXNode" where
  "axNode r n p = \<lparr>ax_role = Some r, ax_name = Some n, ax_path = p, ax_attributes = []\<rparr>"

definition pageHello :: "int NormalizedAXNode list" where
  "pageHello = [axNode ''main'' '''' ''0'', axNode ''StaticText'' ''Hello'' ''0.0'']"

definition pageHelloWorld :: "int NormalizedAXNode list" where
  "pageHelloWorld =
     [axNode ''main'' '''' ''0'', axNode ''StaticText'' ''Hello'' ''0.0'',
      axNode ''StaticText'' ''World'' ''0.1'']"

type_synonym sampleContext = "(int NormalizedAXNode list, int) axContext"

text \<open>
  A registry of two tools for the examples: \<open>take_change_snapshot\<close>, and a tool whose
  handler always throws. The response of a handler is the list of its lines, and
  \<open>response.handle\<close> gives one text item for each line.
\<close>

definition takeChangeSnapshotTool ::
  "(int, changeSnapshotParams, string list, sampleContext) tool" where
  "takeChangeSnapshotTool =
     \<lparr>name = ''take_change_snapshot'', category = DEBUGGING, conditions = None,
      schema = takeChangeSnapshotSchema, zodParse = parseChangeSnapshotParams,
      handler = takeChangeSnapshot sampleBuiltins (\<lambda>s. s)\<rparr>"

definition failingTool ::
  "(int, changeSnapshotParams, string list, sampleContext) tool" where
  "failingTool =
     \<lparr>name = ''always_fails'', category = DEBUGGING, conditions = None,
      schema = [], zodParse = parseChangeSnapshotParams,
      handler = (\<lambda>p c. (Inl (Error ''No page selected''), c))\<rparr>"

definition sampleEnv ::
  "(int, changeSnapshotParams, string list, sampleContext) env" where
  "sampleEnv =
     \<lparr>builtins = sampleBuiltins,
      tools = [takeChangeSnapshotTool, failingTool],
      args = \<lparr>categoryEmulation = None, categoryPerformance = None, categoryNetwork = None,
               experimentalVision = False, format = Some FormatText\<rparr>,
      responseHandle = (\<lambda>toolName r c. (Inr (map TextItem r), c))\<rparr>"

definition sampleSession :: "int NormalizedAXNode list \<Rightarrow> sampleContext session" where
  "sampleSession page =
     \<lparr>toolMutex = Mutex False,
      mcpContext = \<lparr>textSnapshot = Some page, accessibilityBaselines = (\<lambda>k. None)\<rparr>,
      written = []\<rparr>"




definition changedPageContext :: sampleContext where
  "changedPageContext =
     \<lparr>textSnapshot = Some pageHelloWorld,
      accessibilityBaselines = (\<lambda>k. if k = ''default'' then Some pageHello else None)\<rparr>"

definition defaultParams :: changeSnapshotParams where
  "defaultParams = \<lparr>baselineKey = None, replaceBaseline = None, compareTo = None\<rparr>"

section \<open>Properties of the tokenizer\<close>

lemma push_tokens_nonempty: "[] \<notin> set (tokens st) \<Longrightarrow> [] \<notin> set (tokens (push st))"
  by (simp add: push_def)

lemma tokenizeStep_tokens_nonempty:
  "[] \<notin> set (tokens st) \<Longrightarrow> [] \<notin> set (tokens (tokenizeStep st ch))"
  by (simp add: tokenizeStep_def push_def split: option.splits)

lemma foldl_tokenizeStep_tokens_nonempty:
  "[] \<notin> set (tokens st) \<Longrightarrow> [] \<notin> set (tokens (foldl tokenizeStep st line))"
  by (induction line arbitrary: st) (simp_all add: tokenizeStep_tokens_nonempty)

lemma tokenizeScan_tokens_nonempty: "[] \<notin> set (tokens (tokenizeScan line))"
  by (simp add: tokenizeScan_def foldl_tokenizeStep_tokens_nonempty tokInit_def)

lemma tokenizeCliLine_tokens_nonempty:
  assumes "tokenizeCliLine line = Inr ts"
  shows "[] \<notin> set ts"
proof -
  let ?st = "tokenizeScan line"
  let ?fin = "if escaping ?st then ?st\<lparr>current := current ?st @ [CHR 0x5C]\<rparr> else ?st"
  have "[] \<notin> set (tokens ?fin)"
    using tokenizeScan_tokens_nonempty [of line] by simp
  then have "[] \<notin> set (tokens (push ?fin))"
    by (rule push_tokens_nonempty)
  moreover from assms have "ts = tokens (push ?fin)"
    by (simp add: tokenizeCliLine_def Let_def split: if_splits)
  ultimately show ?thesis by simp
qed

text \<open>An opening quote that its own kind closes at once leaves the scanner as it was.\<close>

lemma tokenizeStep_empty_quotes:
  "quote st = None \<Longrightarrow> \<not> escaping st \<Longrightarrow> q = CHR 0x22 \<or> q = CHR 0x27 \<Longrightarrow>
   tokenizeStep (tokenizeStep st q) q = st"
  by (auto simp add: tokenizeStep_def)

lemma tokenizeScan_append:
  "tokenizeScan (pre @ post) = foldl tokenizeStep (tokenizeScan pre) post"
  by (simp add: tokenizeScan_def)

lemma tokenizeCliLine_empty_quotes:
  assumes "quote (tokenizeScan pre) = None" "\<not> escaping (tokenizeScan pre)"
    "q = CHR 0x22 \<or> q = CHR 0x27"
  shows "tokenizeCliLine (pre @ [q, q] @ post) = tokenizeCliLine (pre @ post)"
proof -
  have "tokenizeScan (pre @ [q, q] @ post) = tokenizeScan (pre @ post)"
    using assms by (simp add: tokenizeScan_append tokenizeStep_empty_quotes)
  then show ?thesis by (simp only: tokenizeCliLine_def)
qed



section \<open>Properties of the parameter decoder\<close>






text \<open>A value that is read from a token of its own is not the empty string.\<close>

lemma coerceCliValue_nonempty:
  "coerceCliValue B s key raw = Inr v \<Longrightarrow> raw \<noteq> [] \<Longrightarrow> v \<noteq> JStr []"
  by (auto simp add: coerceCliValue_def Let_def coerceNumber_def parseJsonObject_def
      parseJsonArray_def
      split: if_splits option.splits sum.splits json.splits error.splits)

lemma noEmptyValue_update:
  "noEmptyValue ps \<Longrightarrow> v \<noteq> JStr [] \<Longrightarrow> noEmptyValue (AList.update key v ps)"
  by (simp add: noEmptyValue_def update_conv')

lemma noEmptyValue_assign:
  "noEmptyValue ps \<Longrightarrow> v \<noteq> JStr [] \<Longrightarrow> noEmptyValue (assignCliValue B ps key s v)"
  by (auto simp add: assignCliValue_def Let_def noEmptyValue_update
      split: json.splits option.splits)

lemma negatedFlag_noEmptyValue:
  "negatedFlag B S st w = Inr (st', tk) \<Longrightarrow> noEmptyValue (params st) \<Longrightarrow>
   noEmptyValue (params st')"
  by (auto simp add: negatedFlag_def Let_def noEmptyValue_assign split: option.splits)

lemma positionalArg_noEmptyValue:
  "positionalArg B S st token = Inr (st', tk) \<Longrightarrow> token \<noteq> [] \<Longrightarrow>
   noEmptyValue (params st) \<Longrightarrow> noEmptyValue (params st')"
  by (auto simp add: positionalArg_def Let_def noEmptyValue_update
      split: option.splits if_splits sum.splits dest: coerceCliValue_nonempty)

lemma namedFlag_noEmptyValue:
  assumes "namedFlag B S st w rest = Inr (st', tk)"
    and "noEmptyValue (params st)"
    and "[] \<notin> set rest"
    and "CHR ''='' \<in> set w \<longrightarrow> drop (length (takeWhile (\<lambda>c. c \<noteq> CHR ''='') w) + 1) w \<noteq> []"
  shows "noEmptyValue (params st')"
  using assms
  by (auto simp add: namedFlag_def Let_def noEmptyValue_assign
      split: option.splits if_splits sum.splits list.splits dest: coerceCliValue_nonempty)

lemma parseStep_noEmptyValue:
  assumes "parseStep B S st token rest = Inr (st', tk)"
    and "noEmptyValue (params st)"
    and "token \<noteq> []" and "[] \<notin> set rest"
    and "valueAfterEquals token \<noteq> Some []"
  shows "noEmptyValue (params st')"
proof (cases "token \<noteq> ''--'' \<and> \<not> afterDoubleDash st \<and> startsWith token ''--''")
  case False
  with assms show ?thesis
    by (auto simp add: parseStep_def split: if_splits dest: positionalArg_noEmptyValue)
next
  case flag: True
  show ?thesis
  proof (cases "drop 2 token = []")
    case True
    with flag assms show ?thesis by (simp add: parseStep_def)
  next
    case named: False
    show ?thesis
    proof (cases "startsWith (drop 2 token) ''no-''")
      case True
      with named flag assms(1) have "negatedFlag B S st (drop 2 token) = Inr (st', tk)"
        by (simp add: parseStep_def)
      then show ?thesis using assms(2) by (rule negatedFlag_noEmptyValue)
    next
      case False
      with named flag assms(1) have nm: "namedFlag B S st (drop 2 token) rest = Inr (st', tk)"
        by (simp add: parseStep_def)
      have "CHR ''='' \<in> set (drop 2 token) \<longrightarrow>
            drop (length (takeWhile (\<lambda>c. c \<noteq> CHR ''='') (drop 2 token)) + 1) (drop 2 token) \<noteq> []"
        using assms(5) flag by (auto simp add: valueAfterEquals_def Let_def)
      with nm assms(2,4) show ?thesis by (rule namedFlag_noEmptyValue)
    qed
  qed
qed

lemma parseLoop_noEmptyValue:
  "parseLoop B S st toks = Inr st' \<Longrightarrow> noEmptyValue (params st) \<Longrightarrow>
   \<forall>t\<in>set toks. t \<noteq> [] \<and> valueAfterEquals t \<noteq> Some [] \<Longrightarrow> noEmptyValue (params st')"
proof (induction B S st toks rule: parseLoop.induct)
  case (1 B S st)
  then show ?case by simp
next
  case (2 B S st token rest)
  from "2.prems"(1) obtain st1 tk where
    step: "parseStep B S st token rest = Inr (st1, tk)"
    and cont: "parseLoop B S st1 (if tk then drop 1 rest else rest) = Inr st'"
    by (auto split: sum.splits)
  have "noEmptyValue (params st1)"
    using step "2.prems"(2,3) by (auto intro: parseStep_noEmptyValue)
  moreover have
    "\<forall>t\<in>set (if tk then drop 1 rest else rest). t \<noteq> [] \<and> valueAfterEquals t \<noteq> Some []"
    using "2.prems"(3) by (auto dest: in_set_dropD)
  ultimately show ?case
    using "2.IH" [OF step refl cont] by simp
qed

lemma parseToolParams_noEmptyValue:
  assumes "parseToolParamsFromCliTokens B S toks = Inr ps"
    and "[] \<notin> set toks" and "\<forall>t\<in>set toks. valueAfterEquals t \<noteq> Some []"
  shows "noEmptyValue ps"
proof -
  from assms(1) obtain st where
    loop: "parseLoop B S parseInit (drop 1 toks) = Inr st" and ps: "ps = params st"
    by (auto simp add: parseToolParamsFromCliTokens_def split: sum.splits)
  have "noEmptyValue (params (parseInit :: 'a parseState))"
    by (simp add: noEmptyValue_def parseInit_def)
  moreover have "\<forall>t\<in>set (drop 1 toks). t \<noteq> [] \<and> valueAfterEquals t \<noteq> Some []"
    using assms(2,3) by (auto dest: in_set_dropD)
  ultimately show ?thesis
    using loop ps by (auto dest: parseLoop_noEmptyValue)
qed

section \<open>Empty tokens\<close>

text \<open>
  Claim C10, as amended. The tokenizer never returns an empty token; a pair of quotes with
  nothing between them, met outside a quotation and not after a backslash, adds nothing to
  the result, so that \<open>fill <uid> ""\<close> gives the tool name and one token more. Hence no
  decoded parameter is the empty string, unless a token of the form \<open>--name=\<close> (which
  \<open>--name=""\<close> is after tokenizing) carries it.
\<close>

theorem C10_empty_tokens_dropped:
  \<open>(\<forall>line ts. tokenizeCliLine line = Inr ts \<longrightarrow> [] \<notin> set ts) \<and>
   (\<forall>pre q post.
      quote (tokenizeScan pre) = None \<and> \<not> escaping (tokenizeScan pre) \<and>
      (q = CHR 0x22 \<or> q = CHR 0x27) \<longrightarrow>
      tokenizeCliLine (pre @ [q, q] @ post) = tokenizeCliLine (pre @ post)) \<and>
   tokenizeCliLine ''fill <uid> ""'' = Inr [''fill'', ''<uid>''] \<and>
   (\<forall>(B :: 'n builtins) S line toks ps.
      tokenizeCliLine line = Inr toks \<and> (\<forall>t\<in>set toks. valueAfterEquals t \<noteq> Some []) \<and>
      parseToolParamsFromCliTokens B S toks = Inr ps \<longrightarrow>
      noEmptyValue ps)\<close>
proof (intro conjI allI impI)
  fix line ts
  assume "tokenizeCliLine line = Inr ts"
  then show "[] \<notin> set ts" by (rule tokenizeCliLine_tokens_nonempty)
next
  fix pre :: string and q post
  assume "quote (tokenizeScan pre) = None \<and> \<not> escaping (tokenizeScan pre) \<and>
          (q = CHR 0x22 \<or> q = CHR 0x27)"
  then show "tokenizeCliLine (pre @ [q, q] @ post) = tokenizeCliLine (pre @ post)"
    by (intro tokenizeCliLine_empty_quotes) simp_all
next
  show \<open>tokenizeCliLine ''fill <uid> ""'' = Inr [''fill'', ''<uid>'']\<close>
    by code_simp
next
  fix B :: "'n builtins" and S line toks ps
  assume a: "tokenizeCliLine line = Inr toks \<and> (\<forall>t\<in>set toks. valueAfterEquals t \<noteq> Some []) \<and>
             parseToolParamsFromCliTokens B S toks = Inr ps"
  then have "[] \<notin> set toks" by (auto dest: tokenizeCliLine_tokens_nonempty)
  with a show "noEmptyValue ps" by (auto intro: parseToolParams_noEmptyValue)
qed

text \<open>
  The theorem at the line \<open>take_snapshot "" --filePath out.txt\<close>: the quotes give no
  token, and the parameter that is decoded is not the empty string.
\<close>

theorem C10_empty_tokens_dropped_witness:
  \<open>tokenizeCliLine ''take_snapshot "" --filePath out.txt'' =
     Inr [''take_snapshot'', ''--filePath'', ''out.txt''] \<and>
   [] \<notin> set [''take_snapshot'', ''--filePath'', ''out.txt''] \<and>
   quote (tokenizeScan ''take_snapshot '') = None \<and>
   \<not> escaping (tokenizeScan ''take_snapshot '') \<and>
   tokenizeCliLine ''take_snapshot "" --filePath out.txt'' =
     tokenizeCliLine ''take_snapshot  --filePath out.txt'' \<and>
   list_all (\<lambda>t. valueAfterEquals t \<noteq> Some []) [''take_snapshot'', ''--filePath'', ''out.txt''] \<and>
   parseToolParamsFromCliTokens sampleBuiltins takeSnapshotSchema
     [''take_snapshot'', ''--filePath'', ''out.txt''] = Inr [(''filePath'', JStr ''out.txt'')] \<and>
   noEmptyValue [(''filePath'', JStr ''out.txt'') :: string \<times> int json]\<close>
proof -
  have tok: \<open>tokenizeCliLine ''take_snapshot "" --filePath out.txt'' =
     Inr [''take_snapshot'', ''--filePath'', ''out.txt'']\<close>
    by code_simp
  have scan: "quote (tokenizeScan ''take_snapshot '') = None \<and>
              \<not> escaping (tokenizeScan ''take_snapshot '')"
    by code_simp
  have eqs: "list_all (\<lambda>t. valueAfterEquals t \<noteq> Some [])
               [''take_snapshot'', ''--filePath'', ''out.txt'']"
    by code_simp
  have dec: "parseToolParamsFromCliTokens sampleBuiltins takeSnapshotSchema
     [''take_snapshot'', ''--filePath'', ''out.txt''] = Inr [(''filePath'', JStr ''out.txt'')]"
    by code_simp
  note c10 = C10_empty_tokens_dropped [where 'n = int]
  have nonempty: "[] \<notin> set [''take_snapshot'', ''--filePath'', ''out.txt'']"
    using c10 tok by blast
  have same: \<open>tokenizeCliLine (''take_snapshot '' @ [CHR 0x22, CHR 0x22] @ '' --filePath out.txt'') =
     tokenizeCliLine (''take_snapshot '' @ '' --filePath out.txt'')\<close>
    using c10 scan by blast
  have "noEmptyValue [(''filePath'', JStr ''out.txt'') :: string \<times> int json]"
    using c10 tok eqs dec by (fastforce simp add: list_all_iff)
  with tok scan eqs dec nonempty same show ?thesis by simp
qed

text \<open>
  The claim as it was stated fails where it concludes that no flag can pass an empty
  string: the line \<open>take_snapshot --filePath=""\<close> decodes to the parameter \<open>filePath\<close> with
  the empty string as its value.
\<close>

theorem C10_empty_flag_value_counterexample:
  \<open>tokenizeCliLine ''take_snapshot --filePath=""'' = Inr [''take_snapshot'', ''--filePath=''] \<and>
   parseToolParamsFromCliTokens sampleBuiltins takeSnapshotSchema
     [''take_snapshot'', ''--filePath=''] = Inr [(''filePath'', JStr [])]\<close>
  by code_simp

section \<open>Properties of the execution guard\<close>

text \<open>
  The \<open>try\<close> block does not touch the guard, the guard is not granted while it is held,
  and a command that starts with the guard free ends with the guard free.
\<close>

lemma emit_toolMutex [simp]: "toolMutex (emit out st) = toolMutex st"
  by (simp add: emit_def)

lemma invokeBody_toolMutex: "toolMutex (invokeBody E fmt t tn raw st) = toolMutex st"
  by (simp add: invokeBody_def split: sum.splits error.splits prod.splits)

lemma invokeTool_held: "locked (toolMutex st) \<Longrightarrow> invokeTool E fmt t tn raw st = None"
  by (simp add: invokeTool_def Mutex_acquire_def)

lemma invokeTool_free:
  assumes "\<not> locked (toolMutex st)"
  shows "invokeTool E fmt t tn raw st =
         Some ((invokeBody E fmt t tn raw (st\<lparr>toolMutex := Mutex True\<rparr>))\<lparr>toolMutex := Mutex False\<rparr>)"
  using assms by (simp add: invokeTool_def Mutex_acquire_def Guard_dispose_def Let_def)

lemma invokeTool_released:
  "\<not> locked (toolMutex st) \<Longrightarrow>
   \<exists>st'. invokeTool E fmt t tn raw st = Some st' \<and> \<not> locked (toolMutex st')"
  by (simp add: invokeTool_free)

lemma executeCommand_released:
  "\<not> locked (toolMutex st) \<Longrightarrow>
   \<exists>st'. executeCommand E fmt tn raw st = Some st' \<and> \<not> locked (toolMutex st')"
  by (auto simp add: executeCommand_def invokeTool_free split: option.splits)

lemma afterDecoding_released:
  assumes "\<not> locked (toolMutex st)"
  shows "\<exists>ctl st'. afterDecoding E fmt st d = Some (ctl, st') \<and> \<not> locked (toolMutex st')"
proof (cases d)
  case (Next out)
  with assms show ?thesis by (simp add: afterDecoding_def)
next
  case Stop
  with assms show ?thesis by (simp add: afterDecoding_def)
next
  case (Command tn raw)
  from executeCommand_released [OF assms, of E fmt tn raw]
  obtain st' where "executeCommand E fmt tn raw st = Some st'"
    and "\<not> locked (toolMutex st')" by blast
  with Command show ?thesis by (simp add: afterDecoding_def)
qed

lemma sessionLine_released:
  "\<not> locked (toolMutex st) \<Longrightarrow>
   \<exists>ctl st'. sessionLine E st line = Some (ctl, st') \<and> \<not> locked (toolMutex st')"
  by (simp add: sessionLine_def Let_def afterDecoding_released)

lemma sessionLineJson_released:
  "\<not> locked (toolMutex st) \<Longrightarrow>
   \<exists>ctl st'. sessionLineJson E st line = Some (ctl, st') \<and> \<not> locked (toolMutex st')"
  by (simp add: sessionLineJson_def Let_def afterDecoding_released)

lemma sessionLoop_released:
  "\<not> locked (toolMutex st) \<Longrightarrow>
   \<exists>st'. sessionLoop E st lines = Some st' \<and> \<not> locked (toolMutex st')"
proof (induction lines arbitrary: st)
  case Nil
  then show ?case by simp
next
  case (Cons line lines)
  from sessionLine_released [OF Cons.prems, of E line]
  obtain ctl st1 where l: "sessionLine E st line = Some (ctl, st1)"
    and f: "\<not> locked (toolMutex st1)" by blast
  show ?case
  proof (cases ctl)
    case Continue
    with l Cons.IH [OF f] show ?thesis by simp
  next
    case Break
    with l f show ?thesis by simp
  qed
qed

lemma sessionLoopJson_released:
  "\<not> locked (toolMutex st) \<Longrightarrow>
   \<exists>st'. sessionLoopJson E st lines = Some st' \<and> \<not> locked (toolMutex st')"
proof (induction lines arbitrary: st)
  case Nil
  then show ?case by simp
next
  case (Cons line lines)
  from sessionLineJson_released [OF Cons.prems, of E line]
  obtain ctl st1 where l: "sessionLineJson E st line = Some (ctl, st1)"
    and f: "\<not> locked (toolMutex st1)" by blast
  show ?case
  proof (cases ctl)
    case Continue
    with l Cons.IH [OF f] show ?thesis by simp
  next
    case Break
    with l f show ?thesis by simp
  qed
qed

text \<open>
  The four ways out of the execution: the validation fails, the handler throws,
  \<open>response.handle\<close> throws, or the content is written. Each of them ends with the guard
  free, and nothing but the context and what is written has changed.
\<close>

lemma free_mutex: "\<not> locked (toolMutex st) \<Longrightarrow> st\<lparr>toolMutex := Mutex False\<rparr> = st"
  by (cases st, rename_tac m x w u, case_tac m) simp

lemma invokeTool_validation_failure:
  assumes "\<not> locked (toolMutex st)" "zodParse t raw = Inl (Error m)"
  shows "invokeTool E fmt t tn raw st = Some (emit (writeToolError fmt tn m) st)"
proof -
  have "invokeBody E fmt t tn raw (st\<lparr>toolMutex := Mutex True\<rparr>) =
        emit (writeToolError fmt tn m) (st\<lparr>toolMutex := Mutex True\<rparr>)"
    using assms(2) by (simp add: invokeBody_def)
  then have "invokeTool E fmt t tn raw st =
     Some ((emit (writeToolError fmt tn m) st)\<lparr>toolMutex := Mutex False\<rparr>)"
    using assms(1) by (simp add: invokeTool_free emit_def)
  moreover have "\<not> locked (toolMutex (emit (writeToolError fmt tn m) st))"
    using assms(1) by simp
  ultimately show ?thesis by (simp add: free_mutex)
qed

lemma invokeTool_handler_error:
  assumes "\<not> locked (toolMutex st)" "zodParse t raw = Inr p"
    "handler t p (mcpContext st) = (Inl (Error m), x)"
  shows "invokeTool E fmt t tn raw st =
         Some (emit (writeToolError fmt tn m) (st\<lparr>mcpContext := x\<rparr>))"
proof -
  have "invokeBody E fmt t tn raw (st\<lparr>toolMutex := Mutex True\<rparr>) =
        emit (writeToolError fmt tn m) (st\<lparr>toolMutex := Mutex True, mcpContext := x\<rparr>)"
    using assms(2,3) by (simp add: invokeBody_def)
  then have "invokeTool E fmt t tn raw st =
     Some ((emit (writeToolError fmt tn m) (st\<lparr>mcpContext := x\<rparr>))\<lparr>toolMutex := Mutex False\<rparr>)"
    using assms(1) by (simp add: invokeTool_free emit_def)
  moreover have "\<not> locked (toolMutex (emit (writeToolError fmt tn m) (st\<lparr>mcpContext := x\<rparr>)))"
    using assms(1) by simp
  ultimately show ?thesis by (simp add: free_mutex)
qed

lemma invokeTool_success:
  assumes "\<not> locked (toolMutex st)" "zodParse t raw = Inr p"
    "handler t p (mcpContext st) = (Inr r, x)"
    "responseHandle E (name t) r x = (Inr content, x')"
  shows "invokeTool E fmt t tn raw st =
         Some (emit (writeToolSuccess fmt (name t) content) (st\<lparr>mcpContext := x'\<rparr>))"
proof -
  have "invokeBody E fmt t tn raw (st\<lparr>toolMutex := Mutex True\<rparr>) =
        emit (writeToolSuccess fmt (name t) content) (st\<lparr>toolMutex := Mutex True, mcpContext := x'\<rparr>)"
    using assms(2-4) by (simp add: invokeBody_def)
  then have "invokeTool E fmt t tn raw st =
     Some ((emit (writeToolSuccess fmt (name t) content) (st\<lparr>mcpContext := x'\<rparr>))\<lparr>toolMutex := Mutex False\<rparr>)"
    using assms(1) by (simp add: invokeTool_free emit_def)
  moreover have "\<not> locked (toolMutex (emit (writeToolSuccess fmt (name t) content) (st\<lparr>mcpContext := x'\<rparr>)))"
    using assms(1) by simp
  ultimately show ?thesis by (simp add: free_mutex)
qed

lemma invokeTool_response_error:
  assumes "\<not> locked (toolMutex st)" "zodParse t raw = Inr p"
    "handler t p (mcpContext st) = (Inr r, x)"
    "responseHandle E (name t) r x = (Inl (Error m), x')"
  shows "invokeTool E fmt t tn raw st =
         Some (emit (writeToolError fmt tn m) (st\<lparr>mcpContext := x'\<rparr>))"
proof -
  have "invokeBody E fmt t tn raw (st\<lparr>toolMutex := Mutex True\<rparr>) =
        emit (writeToolError fmt tn m) (st\<lparr>toolMutex := Mutex True, mcpContext := x'\<rparr>)"
    using assms(2-4) by (simp add: invokeBody_def)
  then have "invokeTool E fmt t tn raw st =
     Some ((emit (writeToolError fmt tn m) (st\<lparr>mcpContext := x'\<rparr>))\<lparr>toolMutex := Mutex False\<rparr>)"
    using assms(1) by (simp add: invokeTool_free emit_def)
  moreover have "\<not> locked (toolMutex (emit (writeToolError fmt tn m) (st\<lparr>mcpContext := x'\<rparr>)))"
    using assms(1) by simp
  ultimately show ?thesis by (simp add: free_mutex)
qed

section \<open>Properties of the decoding of a line\<close>














lemma sessionLoop_continue:
  "sessionLine E st line = Some (Continue, st') \<Longrightarrow> sessionLoop E st (line # rest) = sessionLoop E st' rest"
  by simp

lemma sessionLoopJson_continue:
  "sessionLineJson E st line = Some (Continue, st') \<Longrightarrow>
   sessionLoopJson E st (line # rest) = sessionLoopJson E st' rest"
  by simp

section \<open>The guard around every command\<close>

text \<open>
  Claim C1. In both session commands, a line that is processed with the execution guard
  free ends with the guard free, whatever the line, and so does the whole loop; the wait
  for the guard never blocks there. An execution leaves by one of four ways (the validation
  of the parameters fails, the handler throws, \<open>response.handle\<close> throws, the content is
  written), and after each of them the guard is free again and the state differs only by the
  context and by what was written. While the \<open>try\<close> block runs the guard stays as acquired,
  and the guard is granted to nobody while it is held.
\<close>

theorem C1_guard_released_on_every_path:
  "\<not> locked (toolMutex st) \<longrightarrow>
     (\<exists>ctl st'. sessionLine E st line = Some (ctl, st') \<and> \<not> locked (toolMutex st')) \<and>
     (\<exists>st'. sessionLoop E st input = Some st' \<and> \<not> locked (toolMutex st')) \<and>
     (\<exists>ctl st'. sessionLineJson E st line = Some (ctl, st') \<and> \<not> locked (toolMutex st')) \<and>
     (\<exists>st'. sessionLoopJson E st input = Some st' \<and> \<not> locked (toolMutex st')) \<and>
     (\<forall>m. zodParse t raw = Inl (Error m) \<longrightarrow>
        invokeTool E fmt t tn raw st = Some (emit (writeToolError fmt tn m) st)) \<and>
     (\<forall>p m x. zodParse t raw = Inr p \<and> handler t p (mcpContext st) = (Inl (Error m), x) \<longrightarrow>
        invokeTool E fmt t tn raw st =
        Some (emit (writeToolError fmt tn m) (st\<lparr>mcpContext := x\<rparr>))) \<and>
     (\<forall>p r x m x'. zodParse t raw = Inr p \<and> handler t p (mcpContext st) = (Inr r, x) \<and>
        responseHandle E (name t) r x = (Inl (Error m), x') \<longrightarrow>
        invokeTool E fmt t tn raw st =
        Some (emit (writeToolError fmt tn m) (st\<lparr>mcpContext := x'\<rparr>))) \<and>
     (\<forall>p r x content x'. zodParse t raw = Inr p \<and> handler t p (mcpContext st) = (Inr r, x) \<and>
        responseHandle E (name t) r x = (Inr content, x') \<longrightarrow>
        invokeTool E fmt t tn raw st =
        Some (emit (writeToolSuccess fmt (name t) content) (st\<lparr>mcpContext := x'\<rparr>))) \<and>
     (\<forall>st1. toolMutex (invokeBody E fmt t tn raw st1) = toolMutex st1) \<and>
     (\<forall>st1. locked (toolMutex st1) \<longrightarrow> invokeTool E fmt t tn raw st1 = None) \<and>
     (\<forall>m m'. Mutex_acquire m = Some m' \<longrightarrow> \<not> locked m \<and> locked m')"
proof (intro impI conjI allI)
  assume free: "\<not> locked (toolMutex st)"
  show "\<exists>ctl st'. sessionLine E st line = Some (ctl, st') \<and> \<not> locked (toolMutex st')"
    using free by (rule sessionLine_released)
  show "\<exists>st'. sessionLoop E st input = Some st' \<and> \<not> locked (toolMutex st')"
    using free by (rule sessionLoop_released)
  show "\<exists>ctl st'. sessionLineJson E st line = Some (ctl, st') \<and> \<not> locked (toolMutex st')"
    using free by (rule sessionLineJson_released)
  show "\<exists>st'. sessionLoopJson E st input = Some st' \<and> \<not> locked (toolMutex st')"
    using free by (rule sessionLoopJson_released)
  show "invokeTool E fmt t tn raw st = Some (emit (writeToolError fmt tn m) st)"
    if "zodParse t raw = Inl (Error m)" for m
    using free that by (rule invokeTool_validation_failure)
  show "invokeTool E fmt t tn raw st = Some (emit (writeToolError fmt tn m) (st\<lparr>mcpContext := x\<rparr>))"
    if "zodParse t raw = Inr p \<and> handler t p (mcpContext st) = (Inl (Error m), x)" for p m x
    using free that by (auto intro: invokeTool_handler_error)
  show "invokeTool E fmt t tn raw st = Some (emit (writeToolError fmt tn m) (st\<lparr>mcpContext := x'\<rparr>))"
    if "zodParse t raw = Inr p \<and> handler t p (mcpContext st) = (Inr r, x) \<and>
        responseHandle E (name t) r x = (Inl (Error m), x')" for p r x m x'
    using free that by (auto intro: invokeTool_response_error)
  show "invokeTool E fmt t tn raw st =
        Some (emit (writeToolSuccess fmt (name t) content) (st\<lparr>mcpContext := x'\<rparr>))"
    if "zodParse t raw = Inr p \<and> handler t p (mcpContext st) = (Inr r, x) \<and>
        responseHandle E (name t) r x = (Inr content, x')" for p r x content x'
    using free that by (auto intro: invokeTool_success)
  show "toolMutex (invokeBody E fmt t tn raw st1) = toolMutex st1" for st1
    by (rule invokeBody_toolMutex)
  show "invokeTool E fmt t tn raw st1 = None" if "locked (toolMutex st1)" for st1
    using that by (rule invokeTool_held)
  show "\<not> locked m" if "Mutex_acquire m = Some m'" for m m'
    using that by (simp add: Mutex_acquire_def split: if_splits)
  show "locked m'" if "Mutex_acquire m = Some m'" for m m'
    using that by (auto simp add: Mutex_acquire_def split: if_splits)
qed
text \<open>
  The theorem in the example session, first for the loop over three lines and then for
  each way out of an execution: a key that is empty after \<open>--baselineKey=\<close> fails the
  validation, the handler of \<open>always_fails\<close> throws, a \<open>response.handle\<close> that throws, and
  the first \<open>take_change_snapshot\<close>, whose content is written.
\<close>

theorem C1_guard_released_on_every_path_witness:
  \<open>\<not> locked (toolMutex (sampleSession pageHello)) \<and>
   (\<exists>st'. sessionLoop sampleEnv (sampleSession pageHello)
            [''take_change_snapshot'', ''always_fails'', ''take_change_snapshot --baselineKey='']
          = Some st' \<and> \<not> locked (toolMutex st')) \<and>
   zodParse takeChangeSnapshotTool [(''baselineKey'', JStr [])] =
     Inl (Error ''String must contain at least 1 character(s)'') \<and>
   invokeTool sampleEnv FormatText takeChangeSnapshotTool ''take_change_snapshot''
       [(''baselineKey'', JStr [])] (sampleSession pageHello) =
     Some (emit (writeToolError FormatText ''take_change_snapshot''
                   ''String must contain at least 1 character(s)'') (sampleSession pageHello)) \<and>
   invokeTool sampleEnv FormatText failingTool ''always_fails'' [] (sampleSession pageHello) =
     Some (emit (writeToolError FormatText ''always_fails'' ''No page selected'')
             ((sampleSession pageHello)
                \<lparr>mcpContext := mcpContext (sampleSession pageHello)\<rparr>)) \<and>
   invokeTool (sampleEnv\<lparr>responseHandle := \<lambda>n r c. (Inl (Error ''Cannot format''), c)\<rparr>)
       FormatText takeChangeSnapshotTool ''take_change_snapshot'' [] (sampleSession pageHello) =
     Some (emit (writeToolError FormatText ''take_change_snapshot'' ''Cannot format'')
             ((sampleSession pageHello)
                \<lparr>mcpContext :=
                   setAccessibilityBaseline (mcpContext (sampleSession pageHello))
                     ''default'' pageHello\<rparr>)) \<and>
   invokeTool sampleEnv FormatText takeChangeSnapshotTool ''take_change_snapshot'' []
       (sampleSession pageHello) =
     Some (emit (writeToolSuccess FormatText ''take_change_snapshot''
                   [TextItem (''No baseline found for key "default". '' @
                              ''Created a baseline with the current snapshot.'')])
             ((sampleSession pageHello)
                \<lparr>mcpContext :=
                   setAccessibilityBaseline (mcpContext (sampleSession pageHello))
                     ''default'' pageHello\<rparr>))\<close>
proof -
  let ?S = "sampleSession pageHello"
  let ?broken = "sampleEnv\<lparr>responseHandle := \<lambda>n r c. (Inl (Error ''Cannot format''), c)\<rparr>"
  let ?created = \<open>[''No baseline found for key "default". '' @
                    ''Created a baseline with the current snapshot.'']\<close>
  have free: "\<not> locked (toolMutex ?S)"
    by (simp add: sampleSession_def)
  have invalid: "zodParse takeChangeSnapshotTool [(''baselineKey'', JStr [])] =
                 Inl (Error ''String must contain at least 1 character(s)'')"
    by code_simp
  have valid: "zodParse takeChangeSnapshotTool [] =
               Inr \<lparr>baselineKey = None, replaceBaseline = None, compareTo = None\<rparr>"
    by code_simp
  have fails: "handler failingTool \<lparr>baselineKey = None, replaceBaseline = None, compareTo = None\<rparr>
                 (mcpContext ?S) = (Inl (Error ''No page selected''), mcpContext ?S)"
    by (simp add: failingTool_def)
  have valid': "zodParse failingTool [] =
               Inr \<lparr>baselineKey = None, replaceBaseline = None, compareTo = None\<rparr>"
    by code_simp
  have runs: "handler takeChangeSnapshotTool
                 \<lparr>baselineKey = None, replaceBaseline = None, compareTo = None\<rparr> (mcpContext ?S) =
              (Inr ?created, setAccessibilityBaseline (mcpContext ?S) ''default'' pageHello)"
    by (simp add: takeChangeSnapshotTool_def takeChangeSnapshot_def sampleSession_def
        getAccessibilityBaseline_def compareKeyOf_def baselineKeyOf_def)
  have handled: "responseHandle sampleEnv (name takeChangeSnapshotTool) ?created
                   (setAccessibilityBaseline (mcpContext ?S) ''default'' pageHello) =
                 (Inr (map TextItem ?created),
                  setAccessibilityBaseline (mcpContext ?S) ''default'' pageHello)"
    by (simp add: sampleEnv_def)
  have unhandled: "responseHandle ?broken (name takeChangeSnapshotTool) ?created
                   (setAccessibilityBaseline (mcpContext ?S) ''default'' pageHello) =
                 (Inl (Error ''Cannot format''),
                  setAccessibilityBaseline (mcpContext ?S) ''default'' pageHello)"
    by simp
  have nm: "name takeChangeSnapshotTool = ''take_change_snapshot''"
    by (simp add: takeChangeSnapshotTool_def)
  have loop: "\<exists>st'. sessionLoop sampleEnv ?S
            [''take_change_snapshot'', ''always_fails'', ''take_change_snapshot --baselineKey='']
          = Some st' \<and> \<not> locked (toolMutex st')"
    using C1_guard_released_on_every_path [where st = ?S and E = sampleEnv] free by blast
  have p1: "invokeTool sampleEnv FormatText takeChangeSnapshotTool ''take_change_snapshot''
       [(''baselineKey'', JStr [])] ?S =
     Some (emit (writeToolError FormatText ''take_change_snapshot''
                   ''String must contain at least 1 character(s)'') ?S)"
    using C1_guard_released_on_every_path
      [where st = ?S and E = sampleEnv and t = takeChangeSnapshotTool and fmt = FormatText
         and raw = "[(''baselineKey'', JStr [])]" and tn = "''take_change_snapshot''"]
      free invalid
    by blast
  have p2: "invokeTool sampleEnv FormatText failingTool ''always_fails'' [] ?S =
     Some (emit (writeToolError FormatText ''always_fails'' ''No page selected'')
             (?S\<lparr>mcpContext := mcpContext ?S\<rparr>))"
    using C1_guard_released_on_every_path
      [where st = ?S and E = sampleEnv and t = failingTool and fmt = FormatText
         and raw = "[]" and tn = "''always_fails''"]
      free valid' fails
    by blast
  have p3: "invokeTool ?broken FormatText takeChangeSnapshotTool ''take_change_snapshot'' [] ?S =
     Some (emit (writeToolError FormatText ''take_change_snapshot'' ''Cannot format'')
             (?S\<lparr>mcpContext := setAccessibilityBaseline (mcpContext ?S) ''default'' pageHello\<rparr>))"
    using C1_guard_released_on_every_path
      [where st = ?S and E = ?broken and t = takeChangeSnapshotTool and fmt = FormatText
         and raw = "[]" and tn = "''take_change_snapshot''"]
      free valid runs unhandled
    by blast
  have p4: "invokeTool sampleEnv FormatText takeChangeSnapshotTool ''take_change_snapshot'' [] ?S =
     Some (emit (writeToolSuccess FormatText (name takeChangeSnapshotTool) (map TextItem ?created))
             (?S\<lparr>mcpContext := setAccessibilityBaseline (mcpContext ?S) ''default'' pageHello\<rparr>))"
    using C1_guard_released_on_every_path
      [where st = ?S and E = sampleEnv and t = takeChangeSnapshotTool and fmt = FormatText
         and raw = "[]" and tn = "''take_change_snapshot''"]
      free valid runs handled
    by blast
  from free invalid loop p1 p2 p3 p4 nm show ?thesis by simp
qed

section \<open>Quotes on a CLI line\<close>



section \<open>Comments, blank lines and JSON lines that name no tool\<close>



section \<open>Lines that name an unknown tool\<close>



section \<open>Boolean flags\<close>

















section \<open>Comparing a snapshot with itself\<close>

lemma map_filter_empty: "(\<And>x. x \<in> set xs \<Longrightarrow> f x = None) \<Longrightarrow> List.map_filter f xs = []"
  by (induction xs) (simp_all add: List.map_filter_simps)

lemma indexByPath_defined:
  assumes "p \<in> set (pathsOf nodes)"
  shows "indexByPath nodes p \<noteq> None"
proof -
  from assms have "p \<in> ax_path ` set nodes"
    by (simp add: pathsOf_def)
  then have "p \<in> fst ` set (rev (map (\<lambda>n. (ax_path n, n)) nodes))"
    by (auto simp add: image_iff)
  then show ?thesis
    by (simp only: indexByPath_def map_of_eq_None_iff) simp
qed

lemma fieldDelta_same: "fieldDelta prop v v = []"
  by (simp add: fieldDelta_def)

lemma compareNodes_same: "compareNodes a a = []"
  by (simp add: compareNodes_def fieldDelta_same)

lemma changedAt_same: "changedAt nodes nodes p = None"
  by (simp add: changedAt_def compareNodes_same split: option.splits)

lemma diffSnapshots_same:
  "diffSnapshots nodes nodes = \<lparr>added = [], removed = [], changed = []\<rparr>"
proof -
  have "List.map_filter
          (\<lambda>p. if indexByPath nodes p = None then indexByPath nodes p else None)
          (pathsOf nodes) = []"
    by (rule map_filter_empty) (simp add: indexByPath_defined)
  moreover have "List.map_filter (changedAt nodes nodes) (pathsOf nodes) = []"
    by (rule map_filter_empty) (rule changedAt_same)
  ultimately show ?thesis
    by (simp add: diffSnapshots_def)
qed

lemma hasSnapshotChanges_same: "\<not> hasSnapshotChanges (diffSnapshots nodes nodes)"
  by (simp add: diffSnapshots_same hasSnapshotChanges_def)

text \<open>
  Claim C4. The difference of a normalized snapshot with itself has no added, no removed
  and no changed node, and \<open>hasSnapshotChanges\<close> is false of it; of any difference it is
  true exactly when one of the three lists is not empty.
\<close>

theorem C4_diff_of_equal_snapshots_is_empty:
  "added (diffSnapshots A A) = [] \<and> removed (diffSnapshots A A) = [] \<and>
   changed (diffSnapshots A A) = [] \<and> \<not> hasSnapshotChanges (diffSnapshots A A) \<and>
   (hasSnapshotChanges d \<longleftrightarrow> \<not> (added d = [] \<and> removed d = [] \<and> changed d = []))"
  by (simp add: diffSnapshots_same hasSnapshotChanges_def)

text \<open>
  The theorem at the page \<open><main><div>Hello</div></main>\<close>, and at the difference between
  this page and the page with a second \<open>div\<close>, which has one added node.
\<close>

theorem C4_diff_of_equal_snapshots_is_empty_witness:
  "diffSnapshots pageHello pageHello = \<lparr>added = [], removed = [], changed = []\<rparr> \<and>
   \<not> hasSnapshotChanges (diffSnapshots pageHello pageHello) \<and>
   diffSnapshots pageHello pageHelloWorld =
     \<lparr>added = [axNode ''StaticText'' ''World'' ''0.1''], removed = [], changed = []\<rparr> \<and>
   hasSnapshotChanges (diffSnapshots pageHello pageHelloWorld)"
proof -
  have same: "diffSnapshots pageHello pageHello = \<lparr>added = [], removed = [], changed = []\<rparr>"
    by (rule diffSnapshots_same)
  have none: "\<not> hasSnapshotChanges (diffSnapshots pageHello pageHello)"
    using C4_diff_of_equal_snapshots_is_empty [of pageHello] by blast
  have more: "diffSnapshots pageHello pageHelloWorld =
     \<lparr>added = [axNode ''StaticText'' ''World'' ''0.1''], removed = [], changed = []\<rparr>"
    by code_simp
  then have "added (diffSnapshots pageHello pageHelloWorld) \<noteq> []"
    by simp
  then have "hasSnapshotChanges (diffSnapshots pageHello pageHelloWorld)"
    using C4_diff_of_equal_snapshots_is_empty
      [where d = "diffSnapshots pageHello pageHelloWorld"]
    by blast
  with same none more show ?thesis by blast
qed

section \<open>The baseline of \<open>take_change_snapshot\<close>\<close>


lemma takeChangeSnapshot_compare:
  assumes "textSnapshot c = Some snap" "getAccessibilityBaseline c (compareKeyOf p) = Some base"
  shows \<open>takeChangeSnapshot B nz p c =
     (Inr (if \<not> hasSnapshotChanges (diffSnapshots base (nz snap))
           then [''No accessibility changes compared to baseline "'' @ compareKeyOf p @ ''".'']
           else diffReport B (compareKeyOf p) (diffSnapshots base (nz snap))),
      if replaceBaselineOf p then setAccessibilityBaseline c (baselineKeyOf p) (nz snap) else c)\<close>
  using assms by (simp add: takeChangeSnapshot_def Let_def)

lemma getAccessibilityBaseline_set:
  "getAccessibilityBaseline (setAccessibilityBaseline c key snap) k =
   (if k = key then Some snap else getAccessibilityBaseline c k)"
  by (simp add: getAccessibilityBaseline_def setAccessibilityBaseline_def)

lemma textSnapshot_set [simp]:
  "textSnapshot (setAccessibilityBaseline c key snap) = textSnapshot c"
  by (simp add: setAccessibilityBaseline_def)

text \<open>Comparing the page against a baseline that is its own snapshot reports no change.\<close>

lemma takeChangeSnapshot_unchanged:
  assumes "textSnapshot c = Some snap"
    and "getAccessibilityBaseline c (compareKeyOf p) = Some (nz snap)"
  shows \<open>fst (takeChangeSnapshot B nz p c) =
         Inr [''No accessibility changes compared to baseline "'' @ compareKeyOf p @ ''".'']\<close>
  using assms by (simp add: takeChangeSnapshot_compare hasSnapshotChanges_same)

text \<open>
  Claim C2. Let a call capture a snapshot and find a baseline under its compare key, and
  let \<open>replaceBaseline\<close> be absent or true. Then, whatever the baseline was and whether or
  not the comparison has found changes, the context that the call leaves has the normalized
  current snapshot under \<open>baselineKey\<close>, every other baseline as before, and the same page.
  A next call on that context (so with the page unchanged) that compares against this key
  reports the single line that there are no accessibility changes.
\<close>

theorem C2_baseline_rolls_forward:
  \<open>textSnapshot c = Some snap \<and> getAccessibilityBaseline c (compareKeyOf p) = Some base \<and>
   replaceBaseline p \<noteq> Some False \<longrightarrow>
     getAccessibilityBaseline (snd (takeChangeSnapshot B nz p c)) (baselineKeyOf p) =
       Some (nz snap) \<and>
     (\<forall>k. k \<noteq> baselineKeyOf p \<longrightarrow>
        getAccessibilityBaseline (snd (takeChangeSnapshot B nz p c)) k =
        getAccessibilityBaseline c k) \<and>
     textSnapshot (snd (takeChangeSnapshot B nz p c)) = Some snap \<and>
     (compareKeyOf p' = baselineKeyOf p \<longrightarrow>
        fst (takeChangeSnapshot B nz p' (snd (takeChangeSnapshot B nz p c))) =
        Inr [''No accessibility changes compared to baseline "'' @ baselineKeyOf p @ ''".''])\<close>
proof (intro impI)
  assume a: "textSnapshot c = Some snap \<and>
             getAccessibilityBaseline c (compareKeyOf p) = Some base \<and>
             replaceBaseline p \<noteq> Some False"
  then have "replaceBaselineOf p"
    by (cases "replaceBaseline p") (simp_all add: replaceBaselineOf_def)
  with a have after: "snd (takeChangeSnapshot B nz p c) =
                      setAccessibilityBaseline c (baselineKeyOf p) (nz snap)"
    by (simp add: takeChangeSnapshot_compare)
  have stored: "getAccessibilityBaseline (snd (takeChangeSnapshot B nz p c)) (baselineKeyOf p) =
                Some (nz snap)"
    by (simp add: after getAccessibilityBaseline_set)
  have others: "\<forall>k. k \<noteq> baselineKeyOf p \<longrightarrow>
        getAccessibilityBaseline (snd (takeChangeSnapshot B nz p c)) k =
        getAccessibilityBaseline c k"
    by (simp add: after getAccessibilityBaseline_set)
  have page: "textSnapshot (snd (takeChangeSnapshot B nz p c)) = Some snap"
    using a by (simp add: after)
  have again: \<open>fst (takeChangeSnapshot B nz p' (snd (takeChangeSnapshot B nz p c))) =
        Inr [''No accessibility changes compared to baseline "'' @ baselineKeyOf p @ ''".'']\<close>
    if same: "compareKeyOf p' = baselineKeyOf p"
    using takeChangeSnapshot_unchanged [of "snd (takeChangeSnapshot B nz p c)" snap p' nz B]
      page stored
    by (simp add: same)
  from stored others page again show
    \<open>getAccessibilityBaseline (snd (takeChangeSnapshot B nz p c)) (baselineKeyOf p) =
       Some (nz snap) \<and>
     (\<forall>k. k \<noteq> baselineKeyOf p \<longrightarrow>
        getAccessibilityBaseline (snd (takeChangeSnapshot B nz p c)) k =
        getAccessibilityBaseline c k) \<and>
     textSnapshot (snd (takeChangeSnapshot B nz p c)) = Some snap \<and>
     (compareKeyOf p' = baselineKeyOf p \<longrightarrow>
        fst (takeChangeSnapshot B nz p' (snd (takeChangeSnapshot B nz p c))) =
        Inr [''No accessibility changes compared to baseline "'' @ baselineKeyOf p @ ''".''])\<close>
    by blast
qed

text \<open>
  The theorem in the context where the page has changed since the baseline \<open>default\<close>
  was stored: the first call reports the added node and replaces the baseline, and the
  second call reports no change.
\<close>

theorem C2_baseline_rolls_forward_witness:
  \<open>textSnapshot changedPageContext = Some pageHelloWorld \<and>
   getAccessibilityBaseline changedPageContext (compareKeyOf defaultParams) = Some pageHello \<and>
   replaceBaseline defaultParams \<noteq> Some False \<and>
   fst (takeChangeSnapshot sampleBuiltins (\<lambda>s. s) defaultParams changedPageContext) =
     Inr [''Accessibility changes compared to baseline "default":'',
          ''Added nodes: 1, Removed nodes: 0, Changed nodes: 0'',
          ''## Added'',
          ''- [StaticText] "World" at path 0.1''] \<and>
   getAccessibilityBaseline
     (snd (takeChangeSnapshot sampleBuiltins (\<lambda>s. s) defaultParams changedPageContext))
     (baselineKeyOf defaultParams) = Some pageHelloWorld \<and>
   fst (takeChangeSnapshot sampleBuiltins (\<lambda>s. s) defaultParams
          (snd (takeChangeSnapshot sampleBuiltins (\<lambda>s. s) defaultParams changedPageContext))) =
     Inr [''No accessibility changes compared to baseline "'' @ baselineKeyOf defaultParams @
          ''".''] \<and>
   baselineKeyOf defaultParams = ''default''\<close>
proof -
  have page: "textSnapshot changedPageContext = Some pageHelloWorld"
    by (simp add: changedPageContext_def)
  have base: "getAccessibilityBaseline changedPageContext (compareKeyOf defaultParams) =
              Some pageHello"
    by code_simp
  have dflt: "replaceBaseline defaultParams \<noteq> Some False"
    by (simp add: defaultParams_def)
  have key: "compareKeyOf defaultParams = baselineKeyOf defaultParams"
    and key': "baselineKeyOf defaultParams = ''default''"
    by code_simp+
  have report: \<open>fst (takeChangeSnapshot sampleBuiltins (\<lambda>s. s) defaultParams changedPageContext) =
     Inr [''Accessibility changes compared to baseline "default":'',
          ''Added nodes: 1, Removed nodes: 0, Changed nodes: 0'',
          ''## Added'',
          ''- [StaticText] "World" at path 0.1'']\<close>
    by code_simp
  note c2 = C2_baseline_rolls_forward
    [where c = changedPageContext and snap = pageHelloWorld and p = defaultParams
       and base = pageHello and B = sampleBuiltins and nz = "\<lambda>s. s" and p' = defaultParams]
  have stored: "getAccessibilityBaseline
     (snd (takeChangeSnapshot sampleBuiltins (\<lambda>s. s) defaultParams changedPageContext))
     (baselineKeyOf defaultParams) = Some pageHelloWorld"
    using c2 page base dflt by blast
  have again: \<open>fst (takeChangeSnapshot sampleBuiltins (\<lambda>s. s) defaultParams
          (snd (takeChangeSnapshot sampleBuiltins (\<lambda>s. s) defaultParams changedPageContext))) =
     Inr [''No accessibility changes compared to baseline "'' @ baselineKeyOf defaultParams @
          ''".'']\<close>
    using c2 page base dflt key by blast
  from page base dflt report stored again key' show ?thesis
    by blast
qed

section \<open>A call that finds no baseline\<close>





section \<open>The opt-out \<open>replaceBaseline: false\<close>\<close>




end
